theory Spec2Isabelle
  imports Complex_Main "HOL-Library.Sublist"
begin

section \<open>Python values used by the backend\<close>

text \<open>
  The backend is a Python service. Its functions are embedded as HOL functions:
  \<^item> a \<^verbatim>\<open>str\<close> is a \<^typ>\<open>string\<close> holding the UTF-8 bytes of the text, so the
    Spanish texts of the program are written with their bytes (\<^verbatim>\<open>CHR 0xC3, CHR 0xB3\<close>
    for the o with acute accent); containment of one text in another and the regular
    expressions of the program, whose classes are written out, are the same on the
    bytes as on the characters;
  \<^item> the built-in methods of \<^verbatim>\<open>str\<close> that depend on the Unicode tables
    (\<^verbatim>\<open>upper\<close>, \<^verbatim>\<open>lower\<close>, \<^verbatim>\<open>split\<close>, \<^verbatim>\<open>strip\<close>) and \<^verbatim>\<open>int\<close> on a text are parameters:
    every theorem holds whatever they compute;
  \<^item> a \<^verbatim>\<open>float\<close> is an exact \<^typ>\<open>real\<close>: sums, products and quotients are
    the mathematical ones and \<^verbatim>\<open>round(x, n)\<close> rounds half to even at \<^verbatim>\<open>n\<close> decimals;
  \<^item> an exception is the text \<^verbatim>\<open>str(e)\<close>, the only thing the program reads from it,
    and a computation that may raise returns \<^typ>\<open>string + 'a\<close> with \<^term>\<open>Inl\<close> for
    the raise;
  \<^item> the libraries the program calls (market data frames, the language model client,
    JSON parsing, password hashing, token signing) are parameters, and the database
    session is known by the rows of its table.
\<close>

subsection \<open>Strings\<close>

type_synonym exn = string

text \<open>
  The built-in methods \<^verbatim>\<open>s.upper()\<close>, \<^verbatim>\<open>s.lower()\<close>, \<^verbatim>\<open>s.split()\<close>, \<^verbatim>\<open>s.strip()\<close> and
  the conversion \<^verbatim>\<open>int(s)\<close>, which raises on a text that is no integer literal.
\<close>

record builtins =
  str_upper :: "string \<Rightarrow> string"
  str_lower :: "string \<Rightarrow> string"
  str_split :: "string \<Rightarrow> string list"
  str_strip :: "string \<Rightarrow> string"
  int_of_str :: "string \<Rightarrow> exn + int"

text \<open>The class \<^verbatim>\<open>[A-Z]\<close> of the regular expressions.\<close>

definition ascii_uppercase :: string where
  "ascii_uppercase = ''ABCDEFGHIJKLMNOPQRSTUVWXYZ''"

text \<open>\<^verbatim>\<open>s.startswith(p)\<close> and \<^verbatim>\<open>k in s\<close> on strings.\<close>

fun startswith :: "string \<Rightarrow> string \<Rightarrow> bool" where
  "startswith s [] = True"
| "startswith [] (p # ps) = False"
| "startswith (c # cs) (p # ps) = (c = p \<and> startswith cs ps)"

fun str_in :: "string \<Rightarrow> string \<Rightarrow> bool" where
  "str_in k [] = (k = [])"
| "str_in k (c # cs) = (startswith (c # cs) k \<or> str_in k cs)"


text \<open>\<^verbatim>\<open>str(n)\<close> for an integer: decimal digits, with a minus sign below zero.\<close>

definition digit_char :: "int \<Rightarrow> char" where
  "digit_char d = ''0123456789'' ! nat (d mod 10)"

function str_digits :: "int \<Rightarrow> string" where
  "str_digits n =
     (if n < 10 then [digit_char n] else str_digits (n div 10) @ [digit_char n])"
  by pat_completeness auto
termination
  by (relation "measure nat") auto

declare str_digits.simps [simp del]

definition str_int :: "int \<Rightarrow> string" where
  "str_int i = (if i < 0 then ''-'' @ str_digits (- i) else str_digits i)"

subsection \<open>Numbers\<close>

definition ZeroDivisionError :: exn where
  "ZeroDivisionError = ''float division by zero''"

definition IndexError :: exn where
  "IndexError = ''list index out of range''"

definition TypeError_round_complex :: exn where
  "TypeError_round_complex = ''type complex doesn'' @ [CHR 0x27] @ ''t define __round__ method''"

text \<open>\<^verbatim>\<open>a / b\<close> on floats raises on a zero divisor.\<close>

definition py_div :: "real \<Rightarrow> real \<Rightarrow> exn + real" where
  "py_div a b = (if b = 0 then Inl ZeroDivisionError else Inr (a / b))"

definition round_half_even :: "real \<Rightarrow> int" where
  "round_half_even y =
     (let f = \<lfloor>y\<rfloor>; d = y - of_int f
      in if d < 1 / 2 then f else if 1 / 2 < d then f + 1 else if even f then f else f + 1)"

text \<open>\<^verbatim>\<open>round(x, ndigits)\<close>.\<close>

definition py_round :: "real \<Rightarrow> nat \<Rightarrow> real" where
  "py_round x ndigits = of_int (round_half_even (x * 10 ^ ndigits)) / 10 ^ ndigits"

text \<open>
  \<^verbatim>\<open>a ** b\<close> on floats: a negative base with a fractional exponent gives a complex
  number (\<^term>\<open>None\<close> here), zero to a negative power raises.
\<close>

definition py_pow :: "real \<Rightarrow> real \<Rightarrow> exn + real option" where
  "py_pow a b =
     (if b = of_int \<lfloor>b\<rfloor> then
        (if 0 \<le> b then Inr (Some (a ^ nat \<lfloor>b\<rfloor>))
         else if a = 0 then Inl ''0.0 cannot be raised to a negative power''
         else Inr (Some (1 / a ^ nat (- \<lfloor>b\<rfloor>))))
      else if a < 0 then Inr None
      else if a = 0 \<and> b < 0 then Inl ''0.0 cannot be raised to a negative power''
      else Inr (Some (a powr b)))"

text \<open>
  The format specifications \<^verbatim>\<open>,.2f\<close> (grouping of thousands), \<^verbatim>\<open>+.2f\<close> (explicit sign)
  of the f-strings: two decimals, rounded half to even. The digits before the point are
  grouped in threes from the right.
\<close>

fun group3 :: "string \<Rightarrow> string" where
  "group3 (a # b # c # d # rest) = a # b # c # CHR '','' # group3 (d # rest)"
| "group3 s = s"

definition group_thousands :: "string \<Rightarrow> string" where
  "group_thousands s = rev (group3 (rev s))"

definition hundredths :: "real \<Rightarrow> int" where
  "hundredths x = round_half_even (\<bar>x\<bar> * 100)"

definition format_2f :: "bool \<Rightarrow> bool \<Rightarrow> real \<Rightarrow> string" where
  "format_2f grouping signed x =
     (if x < 0 then ''-'' else if signed then ''+'' else [])
     @ (if grouping then group_thousands (str_digits (hundredths x div 100))
        else str_digits (hundredths x div 100))
     @ ''.'' @ [digit_char (hundredths x div 10), digit_char (hundredths x)]"


section \<open>Ticker resolver (\<^verbatim>\<open>ai_advisor.py\<close>, \<^verbatim>\<open>market_data.py\<close>)\<close>

text \<open>The dictionary literal, in its insertion order, which is the order of iteration.\<close>

definition KEYWORD_TO_TICKER :: "(string \<times> string) list" where
  "KEYWORD_TO_TICKER =
    [(''apple'', ''AAPL''), (''aapl'', ''AAPL''),
     (''tesla'', ''TSLA''), (''tsla'', ''TSLA''),
     (''google'', ''GOOGL''), (''alphabet'', ''GOOGL''), (''googl'', ''GOOGL''),
     (''microsoft'', ''MSFT''), (''msft'', ''MSFT''),
     (''amazon'', ''AMZN''), (''amzn'', ''AMZN''),
     (''nvidia'', ''NVDA''), (''nvda'', ''NVDA''),
     (''meta'', ''META''), (''facebook'', ''META''),
     (''netflix'', ''NFLX''), (''nflx'', ''NFLX''),
     (''uber'', ''UBER''),
     (''airbnb'', ''ABNB''),
     (''disney'', ''DIS''),
     (''samsung'', ''005930.KS''),
     (''bitcoin'', ''BTC-USD''), (''btc'', ''BTC-USD''),
     (''ethereum'', ''ETH-USD''), (''eth'', ''ETH-USD''),
     (''solana'', ''SOL-USD''), (''sol'', ''SOL-USD''),
     (''cardano'', ''ADA-USD''), (''ada'', ''ADA-USD''),
     (''dogecoin'', ''DOGE-USD''), (''doge'', ''DOGE-USD''),
     (''ripple'', ''XRP-USD''), (''xrp'', ''XRP-USD''),
     (''sp500'', ''SPY''), (''spy'', ''SPY''), (''s&p'', ''SPY''),
     (''nasdaq'', ''QQQ''), (''qqq'', ''QQQ''),
     (''oro'', ''GLD''), (''gold'', ''GLD''), (''gld'', ''GLD'')]"

definition STOP_WORDS :: "string set" where
  "STOP_WORDS = set
    [''HOY'', ''COMO'', ''ESTA'', ''ACCION'', ''RIESGO'', ''BAJO'', ''INVERTIR'',
     ''SECTORES'', ''PRECIO'', ''PARA'', ''QUE'', ''UNA'', ''LAS'', ''LOS'', ''DEL'',
     ''CON'', ''POR'', ''MAS'', ''SUS'', ''HAY'', ''SON'', ''CUAL'', ''ESTA'',
     ''DEBO'', ''PUEDO'', ''DEBERIA'', ''QUIERO'', ''HACER'', ''TIENE'', ''TIENE'',
     ''CUANTO'', ''VALE'', ''COTIZA'', ''MERCADO'', ''BOLSA'', ''MEJOR'', ''PEOR'']"

text \<open>
  The first \<^verbatim>\<open>re.sub\<close> of \<^verbatim>\<open>extract_ticker_from_message\<close>: every character of the class
  becomes a space. The class holds
  \<^verbatim>\<open>? ! . , ; : " ' ( )\<close>, the line feed, and the inverted question and exclamation
  marks, which are the byte pairs \<^verbatim>\<open>C2 BF\<close> and \<^verbatim>\<open>C2 A1\<close>.
\<close>

definition punctuation :: "char list" where
  "punctuation = [CHR ''?'', CHR ''!'', CHR ''.'', CHR '','', CHR '';'', CHR '':'',
                  CHR 0x22, CHR 0x27, CHR ''('', CHR '')'', CHR 0x0A]"

fun sub_punctuation :: "string \<Rightarrow> string" where
  "sub_punctuation [] = []"
| "sub_punctuation [c] = (if c \<in> set punctuation then '' '' else [c])"
| "sub_punctuation (c # d # cs) =
     (if c = CHR 0xC2 \<and> (d = CHR 0xBF \<or> d = CHR 0xA1) then CHR '' '' # sub_punctuation cs
      else if c \<in> set punctuation then CHR '' '' # sub_punctuation (d # cs)
      else c # sub_punctuation (d # cs))"

text \<open>Step 1: the loop over the items of the keyword map, left by the first hit.\<close>

fun keyword_loop :: "(string \<times> string) list \<Rightarrow> string \<Rightarrow> string option" where
  "keyword_loop [] lower_msg = None"
| "keyword_loop ((keyword, ticker) # items) lower_msg =
     (if str_in keyword lower_msg then Some ticker else keyword_loop items lower_msg)"

text \<open>
  Step 2: \<^verbatim>\<open>re.search(r"\$([A-Z]{1,5}(?:-USD)?)", s)\<close>. The search takes the leftmost
  dollar sign that a capital letter follows; the group takes as many letters as it can, at
  most five, and then \<^verbatim>\<open>-USD\<close> when it follows at once.
\<close>

fun letters_upto :: "nat \<Rightarrow> string \<Rightarrow> string" where
  "letters_upto 0 s = []"
| "letters_upto (Suc n) [] = []"
| "letters_upto (Suc n) (c # cs) =
     (if c \<in> set ascii_uppercase then c # letters_upto n cs else [])"

definition dollar_group :: "string \<Rightarrow> string option" where
  "dollar_group s =
     (let letters = letters_upto 5 s;
          rest = drop (length letters) s
      in if letters = [] then None
         else Some (letters @ (if startswith rest ''-USD'' then ''-USD'' else [])))"

fun dollar_search :: "string \<Rightarrow> string option" where
  "dollar_search [] = None"
| "dollar_search (c # cs) =
     (if c = CHR ''$'' then
        (case dollar_group cs of Some g \<Rightarrow> Some g | None \<Rightarrow> dollar_search cs)
      else dollar_search cs)"

text \<open>Step 3: the loop over the words, left by the first word that passes.\<close>

definition clean_word :: "builtins \<Rightarrow> string \<Rightarrow> string" where
  "clean_word py word = filter (\<lambda>c. c \<in> set ascii_uppercase) (str_upper py word)"

fun word_loop :: "builtins \<Rightarrow> string list \<Rightarrow> string option" where
  "word_loop py [] = None"
| "word_loop py (word # words) =
     (let clean = clean_word py word
      in if 2 \<le> length clean \<and> length clean \<le> 5 \<and> clean \<notin> STOP_WORDS then Some clean
         else word_loop py words)"

definition extract_ticker_from_message :: "builtins \<Rightarrow> string \<Rightarrow> string" where
  "extract_ticker_from_message py message =
     (let words = str_split py (sub_punctuation message);
          lower_msg = str_lower py message
      in case keyword_loop KEYWORD_TO_TICKER lower_msg of
           Some ticker \<Rightarrow> ticker
         | None \<Rightarrow>
            (case dollar_search (str_upper py message) of
               Some g \<Rightarrow> g
             | None \<Rightarrow>
                (case word_loop py words of
                   Some clean \<Rightarrow> clean
                 | None \<Rightarrow> ''UNKNOWN'')))"




section \<open>Market data (\<^verbatim>\<open>market_data.py\<close>)\<close>

text \<open>
  A function of the backend that answers with a dictionary answers either with the
  dictionary \<^verbatim>\<open>{"error": text}\<close> or with a dictionary of data.
\<close>

datatype 'a outcome = is_Error: Error (the_error: string) | is_Result: Result (the_result: 'a)

record top_asset =
  top_ticker :: string
  top_name :: string
  top_category :: string

definition TOP_ASSETS :: "top_asset list" where
  "TOP_ASSETS =
    [\<lparr>top_ticker = ''AAPL'', top_name = ''Apple'', top_category = ''Acciones''\<rparr>,
     \<lparr>top_ticker = ''TSLA'', top_name = ''Tesla'', top_category = ''Acciones''\<rparr>,
     \<lparr>top_ticker = ''GOOGL'', top_name = ''Google'', top_category = ''Acciones''\<rparr>,
     \<lparr>top_ticker = ''MSFT'', top_name = ''Microsoft'', top_category = ''Acciones''\<rparr>,
     \<lparr>top_ticker = ''NVDA'', top_name = ''NVIDIA'', top_category = ''Acciones''\<rparr>,
     \<lparr>top_ticker = ''AMZN'', top_name = ''Amazon'', top_category = ''Acciones''\<rparr>,
     \<lparr>top_ticker = ''BTC-USD'', top_name = ''Bitcoin'', top_category = ''Cripto''\<rparr>,
     \<lparr>top_ticker = ''ETH-USD'', top_name = ''Ethereum'', top_category = ''Cripto''\<rparr>,
     \<lparr>top_ticker = ''SPY'', top_name = ''S&P 500 ETF'', top_category = ''ETFs''\<rparr>]"

text \<open>
  The market data provider. A data frame is known by what the program reads from it:
  whether it is empty, its column of closing prices (\<^term>\<open>None\<close> for a missing
  value), and what resampling it by month yields; a monthly series by its length and by
  the mean of its returns together with the text of its period. Every call may raise.
\<close>

record monthly_series =
  ms_len :: nat
  ms_stats :: "exn + real \<times> string"

record data_frame =
  df_empty :: bool
  df_close :: "real option list"
  df_monthly :: "exn + monthly_series"

record ticker_info =
  longName :: "string option"
  shortName :: "string option"

record yf_ticker =
  history :: "string \<Rightarrow> exn + data_frame"
  info :: "exn + ticker_info"

record batch_frame =
  by_ticker :: "string \<Rightarrow> exn + real option list"
  flat_close :: "exn + real option list"

record yfinance =
  Ticker :: "string \<Rightarrow> yf_ticker"
  download :: "string list \<Rightarrow> string \<Rightarrow> exn + batch_frame"

fun dropna :: "real option list \<Rightarrow> real list" where
  "dropna [] = []"
| "dropna (None # xs) = dropna xs"
| "dropna (Some x # xs) = x # dropna xs"

text \<open>\<^verbatim>\<open>a or b\<close> where \<open>a\<close> is a text or \<^verbatim>\<open>None\<close>.\<close>

definition str_or :: "string option \<Rightarrow> string \<Rightarrow> string" where
  "str_or a b = (case a of None \<Rightarrow> b | Some s \<Rightarrow> if s = [] then b else s)"

text \<open>
  The four assignments \<^verbatim>\<open>price\<close>, \<^verbatim>\<open>prev_price\<close>, \<^verbatim>\<open>change\<close>, \<^verbatim>\<open>change_pct\<close>, which
  \<^verbatim>\<open>_get_yfinance_data\<close> and the loop of \<^verbatim>\<open>get_top_assets\<close> both make from the closing
  prices left by \<^verbatim>\<open>dropna\<close>.
\<close>

definition price_change :: "real list \<Rightarrow> exn + real \<times> real \<times> real \<times> real" where
  "price_change closes =
     (if closes = [] then Inl ''single positional indexer is out-of-bounds''
      else
        let price = last closes;
            prev_price = (if 2 \<le> length closes then closes ! (length closes - 2) else price);
            change = price - prev_price
        in case (if prev_price \<noteq> 0
                 then (case py_div change prev_price of
                         Inl e \<Rightarrow> Inl e
                       | Inr q \<Rightarrow> Inr (q * 100))
                 else Inr 0) of
             Inl e \<Rightarrow> Inl e
           | Inr change_pct \<Rightarrow> Inr (price, prev_price, change, change_pct))"

record market_snapshot =
  snap_source :: string
  snap_ticker :: string
  snap_name :: string
  snap_price :: string
  snap_change :: string
  snap_change_percent :: string
  snap_currency :: string

definition get_yfinance_data ::
    "builtins \<Rightarrow> yfinance \<Rightarrow> string \<Rightarrow> market_snapshot outcome" where
  "get_yfinance_data py yf ticker_symbol =
     (let ticker = Ticker yf ticker_symbol;
          failed = Error (''No se pudo obtener datos para '' @ [CHR 0x27] @ ticker_symbol
                          @ [CHR 0x27])
      in case history ticker ''2d'' of
           Inl e \<Rightarrow> failed
         | Inr hist \<Rightarrow>
            if df_empty hist then
              Error (''No se encontraron datos para '' @ [CHR 0x27] @ ticker_symbol
                     @ [CHR 0x27])
            else
              let closes = dropna (df_close hist)
              in if length closes < 1 then
                   Error (''No hay datos de cierre para '' @ [CHR 0x27] @ ticker_symbol
                          @ [CHR 0x27])
                 else
                   (case price_change closes of
                      Inl e \<Rightarrow> failed
                    | Inr (price, prev_price, change, change_pct) \<Rightarrow>
                       let name =
                             (case info ticker of
                                Inl e \<Rightarrow> str_upper py ticker_symbol
                              | Inr i \<Rightarrow>
                                  str_or (longName i)
                                    (str_or (shortName i) (str_upper py ticker_symbol)))
                       in Result
                            \<lparr>snap_source = ''yfinance'',
                             snap_ticker = str_upper py ticker_symbol,
                             snap_name = name,
                             snap_price = format_2f True False price,
                             snap_change = format_2f False True change,
                             snap_change_percent = format_2f False True change_pct @ ''%'',
                             snap_currency = ''USD''\<rparr>))"

definition get_market_data ::
    "builtins \<Rightarrow> yfinance \<Rightarrow> string \<Rightarrow> market_snapshot outcome" where
  "get_market_data py yf query =
     (if query = [] \<or> query = ''UNKNOWN'' then
        Error (''No se identific'' @ [CHR 0xC3, CHR 0xB3] @ '' un activo v'' @ [CHR 0xC3, CHR 0xA1]
               @ ''lido en tu mensaje'')
      else
        let ticker = (case map_of KEYWORD_TO_TICKER (str_lower py query) of
                        Some t \<Rightarrow> t
                      | None \<Rightarrow> str_upper py query)
        in get_yfinance_data py yf ticker)"

text \<open>
  \<^verbatim>\<open>get_top_assets\<close>. A row of the batch path carries numbers; the fall-back path
  appends the snapshot of \<^verbatim>\<open>_get_yfinance_data\<close> with the category added.
\<close>

record asset_row =
  row_ticker :: string
  row_name :: string
  row_category :: string
  row_price :: real
  row_change :: real
  row_change_pct :: real
  row_currency :: string

datatype asset_item = BatchRow asset_row | FallbackRow market_snapshot string

text \<open>One pass of the loop over \<^verbatim>\<open>TOP_ASSETS\<close>: a row, or nothing after \<^verbatim>\<open>continue\<close>.\<close>

definition batch_row :: "batch_frame \<Rightarrow> string list \<Rightarrow> top_asset \<Rightarrow> asset_row option" where
  "batch_row data tickers_list asset =
     (let ticker = top_ticker asset
      in case (if 1 < length tickers_list then by_ticker data ticker else flat_close data) of
           Inl e \<Rightarrow> None
         | Inr ticker_data \<Rightarrow>
            let closes = dropna ticker_data
            in if length closes < 1 then None
               else
                 (case price_change closes of
                    Inl e \<Rightarrow> None
                  | Inr (price, prev_price, change, change_pct) \<Rightarrow>
                     Some \<lparr>row_ticker = ticker,
                           row_name = top_name asset,
                           row_category = top_category asset,
                           row_price = py_round price 2,
                           row_change = py_round change 2,
                           row_change_pct = py_round change_pct 2,
                           row_currency = ''USD''\<rparr>))"

definition fallback_row :: "builtins \<Rightarrow> yfinance \<Rightarrow> top_asset \<Rightarrow> asset_item option" where
  "fallback_row py yf asset =
     (case get_yfinance_data py yf (top_ticker asset) of
        Error e \<Rightarrow> None
      | Result item \<Rightarrow> Some (FallbackRow item (top_category asset)))"

definition get_top_assets :: "builtins \<Rightarrow> yfinance \<Rightarrow> asset_item list" where
  "get_top_assets py yf =
     (let tickers_list = map top_ticker TOP_ASSETS
      in case download yf tickers_list ''2d'' of
           Inr data \<Rightarrow>
             List.map_filter (\<lambda>asset. map_option BatchRow (batch_row data tickers_list asset))
               TOP_ASSETS
         | Inl e \<Rightarrow> List.map_filter (fallback_row py yf) TOP_ASSETS)"

section \<open>Advisory responder and chat endpoint (\<^verbatim>\<open>ai_advisor.py\<close>, \<^verbatim>\<open>main.py\<close>)\<close>

text \<open>
  The language model client \<^verbatim>\<open>client = genai.Client(...)\<close>: generating content may
  raise, and the text of a response may be \<^verbatim>\<open>None\<close>.
\<close>

record genai_client =
  generate_content :: "string \<Rightarrow> string \<Rightarrow> exn + string option"

definition MODEL_NAME :: string where
  "MODEL_NAME = ''gemini-2.0-flash''"

definition market_context :: "market_snapshot outcome option \<Rightarrow> string" where
  "market_context market_data =
     (case market_data of
        Some (Result d) \<Rightarrow>
          ''Datos de mercado en tiempo real:'' @ [CHR 0x0A] @ ''  - Activo: '' @ snap_name d
            @ [CHR 0x0A] @ ''  - Precio actual: $'' @ snap_price d
            @ [CHR 0x0A] @ ''  - Cambio hoy: '' @ snap_change d
            @ '' ('' @ snap_change_percent d
            @ '')'' @ [CHR 0x0A]
      | _ \<Rightarrow> ''No hay datos de mercado espec'' @ [CHR 0xC3, CHR 0xAD] @ ''ficos para este mensaje.'')"

definition profile_guidance :: "string \<Rightarrow> string" where
  "profile_guidance user_profile =
     (if user_profile = ''Conservador'' then
        ''El usuario prefiere seguridad. Prioriza productos de bajo ''
          @ ''riesgo (bonos, ETFs diversificados, dep'' @ [CHR 0xC3, CHR 0xB3]
          @ ''sitos).''
      else if user_profile = ''Moderado'' then
        ''El usuario busca equilibrio riesgo/retorno. Acciones blue-chip, ''
          @ ''ETFs mixtos son adecuados.''
      else if user_profile = ''Agresivo'' then
        ''El usuario tolera alta volatilidad a cambio de mayores ''
          @ ''retornos. Acciones individuales, cripto, sectores de '' @ ''crecimiento.''
      else ''Perfil Moderado.'')"

definition analysis_prompt :: "string \<Rightarrow> string \<Rightarrow> market_snapshot outcome option \<Rightarrow> string" where
  "analysis_prompt user_message user_profile market_data =
     [CHR 0x0A] @ ''Eres Investi, un asesor financiero experto, humano y ''
       @ [CHR 0xC3, CHR 0xA9] @ ''tico. Hablas siempre en espa'' @ [CHR 0xC3, CHR 0xB1]
       @ ''ol.'' @ [CHR 0x0A, CHR 0x0A] @ ''PERFIL DEL CLIENTE: ''
     @ user_profile
     @ [CHR 0x0A] @ ''GU'' @ [CHR 0xC3, CHR 0x8D] @ ''A DE PERFIL: ''
     @ profile_guidance user_profile
     @ [CHR 0x0A, CHR 0x0A] @ ''MENSAJE DEL USUARIO: '' @ [CHR 0x22]
     @ user_message
     @ [CHR 0x22, CHR 0x0A, CHR 0x0A]
     @ market_context market_data
     @ [CHR 0x0A, CHR 0x0A] @ ''INSTRUCCIONES:'' @ [CHR 0x0A]
       @ ''- Responde de forma natural, c'' @ [CHR 0xC3, CHR 0xA1]
       @ ''lida y directa (m'' @ [CHR 0xC3, CHR 0xA1] @ ''ximo 4-5 p''
       @ [CHR 0xC3, CHR 0xA1] @ ''rrafos)'' @ [CHR 0x0A]
       @ ''- Si hay datos de mercado, anal'' @ [CHR 0xC3, CHR 0xAD]
       @ ''zalos brevemente en el contexto del perfil del usuario'' @ [CHR 0x0A]
       @ ''- Si no hay datos espec'' @ [CHR 0xC3, CHR 0xAD]
       @ ''ficos, da consejos generales de inversi'' @ [CHR 0xC3, CHR 0xB3]
       @ ''n relevantes al mensaje'' @ [CHR 0x0A]
       @ ''- Usa negrita (**texto**) para destacar datos clave'' @ [CHR 0x0A]
       @ ''- Termina SIEMPRE con: ''
       @ [CHR 0x22, CHR 0xE2, CHR 0x9A, CHR 0xA0, CHR 0xEF, CHR 0xB8, CHR 0x8F]
       @ '' *Este an'' @ [CHR 0xC3, CHR 0xA1]
       @ ''lisis es educativo y no constituye asesor'' @ [CHR 0xC3, CHR 0xAD]
       @ ''a financiera oficial.*'' @ [CHR 0x22, CHR 0x0A]"

definition get_unified_analysis ::
    "genai_client \<Rightarrow> string \<Rightarrow> string \<Rightarrow> market_snapshot outcome option \<Rightarrow> string option" where
  "get_unified_analysis client user_message user_profile market_data =
     (case generate_content client MODEL_NAME
             (analysis_prompt user_message user_profile market_data) of
        Inr text \<Rightarrow> text
      | Inl e \<Rightarrow>
          Some (''Lo siento, tuve un problema procesando tu consulta. Por favor ''
            @ ''intenta de nuevo. (Error: '' @ e
                @ '')''))"

record ChatRequest =
  chat_message :: string
  chat_profile :: string

record chat_response =
  reply :: "string option"
  market_data :: "market_snapshot outcome option"
  detected_ticker :: string

definition chat_endpoint ::
    "builtins \<Rightarrow> yfinance \<Rightarrow> genai_client \<Rightarrow> ChatRequest \<Rightarrow> chat_response" where
  "chat_endpoint py yf client request =
     (let ticker = extract_ticker_from_message py (chat_message request);
          market_data0 =
            (if ticker \<noteq> ''UNKNOWN'' then Some (get_market_data py yf ticker) else None);
          market_data1 =
            (case market_data0 of
               Some (Error e) \<Rightarrow> None
             | _ \<Rightarrow> market_data0);
          ai_reply =
            get_unified_analysis client (chat_message request) (chat_profile request)
              market_data1
      in \<lparr>reply = ai_reply, market_data = market_data1, detected_ticker = ticker\<rparr>)"


section \<open>Risk test (\<^verbatim>\<open>ai_advisor.py\<close>, \<^verbatim>\<open>main.py\<close>)\<close>

definition RISK_QUESTIONS :: "string list" where
  "RISK_QUESTIONS =
    [''1'' @ [CHR 0xEF, CHR 0xB8, CHR 0x8F, CHR 0xE2, CHR 0x83, CHR 0xA3] @ '' **''
     @ [CHR 0xC2, CHR 0xBF] @ ''Cu'' @ [CHR 0xC3, CHR 0xA1]
     @ ''l es tu objetivo principal al invertir?**'' @ [CHR 0x0A]
     @ ''   a) Conservar mi dinero y protegerme de la inflaci'' @ [CHR 0xC3, CHR 0xB3]
     @ ''n'' @ [CHR 0x0A] @ ''   b) Crecer moderadamente con riesgo controlado''
     @ [CHR 0x0A] @ ''   c) Maximizar el crecimiento aunque implique alta volatilidad'',
     ''2'' @ [CHR 0xEF, CHR 0xB8, CHR 0x8F, CHR 0xE2, CHR 0x83, CHR 0xA3]
     @ '' **Si tu inversi'' @ [CHR 0xC3, CHR 0xB3] @ ''n cayera un 20% en un mes, ''
     @ [CHR 0xC2, CHR 0xBF] @ ''qu'' @ [CHR 0xC3, CHR 0xA9] @ '' har''
     @ [CHR 0xC3, CHR 0xAD] @ ''as?**'' @ [CHR 0x0A] @ ''   a) Vender''
     @ [CHR 0xC3, CHR 0xAD] @ ''a todo para evitar m'' @ [CHR 0xC3, CHR 0xA1] @ ''s p''
     @ [CHR 0xC3, CHR 0xA9] @ ''rdidas'' @ [CHR 0x0A] @ ''   b) Esperar''
     @ [CHR 0xC3, CHR 0xAD] @ ''a a que se recupere sin hacer nada'' @ [CHR 0x0A]
     @ ''   c) Comprar'' @ [CHR 0xC3, CHR 0xAD] @ ''a m'' @ [CHR 0xC3, CHR 0xA1]
     @ ''s, es una oportunidad de precio bajo'',
     ''3'' @ [CHR 0xEF, CHR 0xB8, CHR 0x8F, CHR 0xE2, CHR 0x83, CHR 0xA3] @ '' **''
     @ [CHR 0xC2, CHR 0xBF] @ ''Cu'' @ [CHR 0xC3, CHR 0xA1]
     @ ''nto tiempo planeas mantener tu inversi'' @ [CHR 0xC3, CHR 0xB3] @ ''n?**''
     @ [CHR 0x0A] @ ''   a) Menos de 1 a'' @ [CHR 0xC3, CHR 0xB1] @ ''o'' @ [CHR 0x0A]
     @ ''   b) Entre 1 y 5 a'' @ [CHR 0xC3, CHR 0xB1] @ ''os'' @ [CHR 0x0A]
     @ ''   c) M'' @ [CHR 0xC3, CHR 0xA1] @ ''s de 5 a'' @ [CHR 0xC3, CHR 0xB1] @ ''os'',
     ''4'' @ [CHR 0xEF, CHR 0xB8, CHR 0x8F, CHR 0xE2, CHR 0x83, CHR 0xA3] @ '' **''
     @ [CHR 0xC2, CHR 0xBF] @ ''Con qu'' @ [CHR 0xC3, CHR 0xA9]
     @ '' porcentaje de tus ahorros est'' @ [CHR 0xC3, CHR 0xA1]
     @ ''s dispuesto a asumir riesgo?**'' @ [CHR 0x0A] @ ''   a) Menos del 20%''
     @ [CHR 0x0A] @ ''   b) Entre el 20% y el 50%'' @ [CHR 0x0A] @ ''   c) M''
     @ [CHR 0xC3, CHR 0xA1] @ ''s del 50%, busco retornos altos'',
     ''5'' @ [CHR 0xEF, CHR 0xB8, CHR 0x8F, CHR 0xE2, CHR 0x83, CHR 0xA3] @ '' **''
     @ [CHR 0xC2, CHR 0xBF] @ ''Cu'' @ [CHR 0xC3, CHR 0xA1]
     @ ''l de estas frases describe mejor tu situaci'' @ [CHR 0xC3, CHR 0xB3]
     @ ''n financiera?**'' @ [CHR 0x0A]
     @ ''   a) Tengo ingresos fijos y no puedo permitirme grandes p''
     @ [CHR 0xC3, CHR 0xA9] @ ''rdidas'' @ [CHR 0x0A]
     @ ''   b) Tengo estabilidad pero quiero hacer crecer mi patrimonio'' @ [CHR 0x0A]
     @ ''   c) Tengo ingresos variables y alta tolerancia a la '' @ ''incertidumbre'']"

definition get_risk_question :: "int \<Rightarrow> string" where
  "get_risk_question question_number =
     (if 0 \<le> question_number \<and> question_number < int (length RISK_QUESTIONS) then
        RISK_QUESTIONS ! nat question_number
        @ [CHR 0x0A, CHR 0x0A] @ ''*Pregunta '' @ str_int (question_number + 1)
        @ '' de '' @ str_int (int (length RISK_QUESTIONS))
        @ ''*''
      else [])"

text \<open>The endpoint \<^verbatim>\<open>GET /api/risk-test/question/{number}\<close>.\<close>

datatype 'a http = HTTPException nat string "(string \<times> string) list" | Unhandled exn | Response 'a

record question_response =
  question_number :: int
  total_questions :: int
  question :: string

definition get_question :: "int \<Rightarrow> question_response http" where
  "get_question number =
     (if \<not> (1 \<le> number \<and> number \<le> 5) then
        HTTPException 400 ''Question number must be between 1 and 5'' []
      else
        Response \<lparr>question_number = number, total_questions = 5,
                  question = get_risk_question (number - 1)\<rparr>)"

text \<open>
  What \<^verbatim>\<open>json.loads\<close> returns. An object is the list of its pairs, each key once.
\<close>

datatype json =
    JNull
  | JBool bool
  | JNumber real
  | JString string
  | JArray "json list"
  | JObject "(string \<times> json) list"













section \<open>Projection calculator (\<^verbatim>\<open>calculator.py\<close>, \<^verbatim>\<open>main.py\<close>)\<close>

definition ASSET_NAMES :: "(string \<times> string) list" where
  "ASSET_NAMES =
    [(''AAPL'', ''Apple Inc.''),
     (''TSLA'', ''Tesla Inc.''),
     (''GOOGL'', ''Alphabet (Google)''),
     (''AMZN'', ''Amazon.com Inc.''),
     (''MSFT'', ''Microsoft Corp.''),
     (''NVDA'', ''NVIDIA Corp.''),
     (''META'', ''Meta Platforms''),
     (''BTC-USD'', ''Bitcoin''),
     (''ETH-USD'', ''Ethereum''),
     (''SPY'', ''S&P 500 ETF''),
     (''QQQ'', ''Nasdaq 100 ETF''),
     (''GLD'', ''Gold ETF'')]"

record monthly_projection =
  month :: int
  "value" :: real
  gain :: real
  gain_pct :: real

text \<open>
  The loop \<^verbatim>\<open>for m in range(1, months + 1)\<close>, over the list of the values of \<open>m\<close>
  still to come, with the running \<^verbatim>\<open>current_value\<close> and the breakdown so far. The
  quotient \<^verbatim>\<open>gain / amount\<close> raises when \<open>amount\<close> is zero.
\<close>

fun projection_loop ::
    "real \<Rightarrow> real \<Rightarrow> int list \<Rightarrow> real \<Rightarrow> monthly_projection list
      \<Rightarrow> exn + real \<times> monthly_projection list" where
  "projection_loop amount avg_monthly_return [] current_value breakdown =
     Inr (current_value, breakdown)"
| "projection_loop amount avg_monthly_return (m # ms) current_value breakdown =
     (let current_value' = current_value * (1 + avg_monthly_return);
          gain = current_value' - amount
      in case py_div gain amount of
           Inl e \<Rightarrow> Inl e
         | Inr q \<Rightarrow>
             projection_loop amount avg_monthly_return ms current_value'
               (breakdown @
                 [\<lparr>month = m,
                   value = py_round current_value' 2,
                   gain = py_round gain 2,
                   gain_pct = py_round (q * 100) 2\<rparr>]))"

declare projection_loop.simps [simp del]

text \<open>
  The annualized return, already rounded as in the result:
  \<^verbatim>\<open>round(((final_value / amount) ** (1 / years) - 1) * 100 if years > 0 else 0, 2)\<close>.
  Rounding a complex number raises.
\<close>

definition annualized_return :: "real \<Rightarrow> real \<Rightarrow> int \<Rightarrow> exn + real" where
  "annualized_return final_value amount months =
     (let years = real_of_int months / 12
      in if 0 < years then
           (case py_div final_value amount of
              Inl e \<Rightarrow> Inl e
            | Inr base \<Rightarrow>
               (case py_div 1 years of
                  Inl e \<Rightarrow> Inl e
                | Inr exponent \<Rightarrow>
                   (case py_pow base exponent of
                      Inl e \<Rightarrow> Inl e
                    | Inr None \<Rightarrow> Inl TypeError_round_complex
                    | Inr (Some p) \<Rightarrow> Inr (py_round ((p - 1) * 100) 2))))
         else Inr (py_round 0 2))"

record projection =
  ticker :: string
  asset_name :: string
  initial_amount :: real
  final_value :: real
  total_gain :: real
  total_gain_pct :: real
  annualized_return_pct :: real
  avg_monthly_return_pct :: real
  monthly_breakdown :: "monthly_projection list"
  data_period :: string
  disclaimer :: string

text \<open>The text under the key \<^verbatim>\<open>disclaimer\<close>.\<close>

definition disclaimer_text :: string where
  "disclaimer_text =
     ''Este c'' @ [CHR 0xC3, CHR 0xA1] @ ''lculo es estimativo, basado en rendimientos hist''
     @ [CHR 0xC3, CHR 0xB3]
     @ ''ricos promedio. El rendimiento pasado no garantiza resultados ''
     @ ''futuros. No constituye asesor'' @ [CHR 0xC3, CHR 0xAD]
     @ ''a financiera oficial.''"

text \<open>
  The body of the \<^verbatim>\<open>try\<close> statement, where \<open>tkr\<close> is the normalised
  \<^verbatim>\<open>ticker\<close>: it raises (\<^term>\<open>Inl\<close>) or returns a dictionary,
  which is one of the two error dictionaries of the early returns or the projection.
\<close>

definition projection_body ::
    "yfinance \<Rightarrow> string \<Rightarrow> real \<Rightarrow> int \<Rightarrow> exn + projection outcome" where
  "projection_body yf tkr amount months =
     (case history (Ticker yf tkr) ''2y'' of
        Inl e \<Rightarrow> Inl e
      | Inr hist \<Rightarrow>
         if df_empty hist \<or> length (df_close hist) < 20 then
           Inr (Error (''No hay datos hist'' @ [CHR 0xC3, CHR 0xB3] @ ''ricos suficientes para '' @ tkr))
         else
           (case df_monthly hist of
              Inl e \<Rightarrow> Inl e
            | Inr monthly_prices \<Rightarrow>
               if ms_len monthly_prices < 2 then
                 Inr (Error (''Datos insuficientes para calcular retorno mensual de '' @ tkr))
               else
                 (case ms_stats monthly_prices of
                    Inl e \<Rightarrow> Inl e
                  | Inr (avg_monthly_return, period) \<Rightarrow>
                     (case projection_loop amount avg_monthly_return [1..months] amount [] of
                        Inl e \<Rightarrow> Inl e
                      | Inr (current_value, breakdown) \<Rightarrow>
                         if breakdown = [] then Inl IndexError
                         else
                           let final_value = value (last breakdown);
                               total_gain = final_value - amount
                           in case py_div total_gain amount of
                                Inl e \<Rightarrow> Inl e
                              | Inr q \<Rightarrow>
                                 (case annualized_return final_value amount months of
                                    Inl e \<Rightarrow> Inl e
                                  | Inr annualized \<Rightarrow>
                                     Inr (Result
                                       \<lparr>ticker = tkr,
                                        asset_name =
                                          (case map_of ASSET_NAMES tkr of
                                             Some n \<Rightarrow> n
                                           | None \<Rightarrow> tkr),
                                        initial_amount = py_round amount 2,
                                        final_value = py_round final_value 2,
                                        total_gain = py_round total_gain 2,
                                        total_gain_pct = py_round (q * 100) 2,
                                        annualized_return_pct = annualized,
                                        avg_monthly_return_pct =
                                          py_round (avg_monthly_return * 100) 4,
                                        monthly_breakdown = breakdown,
                                        data_period = period,
                                        disclaimer = disclaimer_text\<rparr>))))))"

definition calculate_projection ::
    "builtins \<Rightarrow> yfinance \<Rightarrow> string \<Rightarrow> real \<Rightarrow> int \<Rightarrow> projection outcome" where
  "calculate_projection py yf symbol amount months =
     (let ticker = str_strip py (str_upper py symbol)
      in case projection_body yf ticker amount months of
           Inr result \<Rightarrow> result
         | Inl e \<Rightarrow>
             Error (''No se pudo calcular la proyecci'' @ [CHR 0xC3, CHR 0xB3] @ ''n para '' @ ticker
                    @ '': '' @ e))"

text \<open>
  The endpoint \<^verbatim>\<open>POST /api/calculate\<close>. A request is a \<^verbatim>\<open>CalculatorRequest\<close> whose
  fields the framework has validated: \<^verbatim>\<open>amount >= 10\<close> and \<^verbatim>\<open>1 <= months <= 48\<close>.
\<close>

record CalculatorRequest =
  req_ticker :: string
  req_amount :: real
  req_months :: int

definition valid_request :: "CalculatorRequest \<Rightarrow> bool" where
  "valid_request request \<longleftrightarrow>
     10 \<le> req_amount request \<and> 1 \<le> req_months request \<and> req_months request \<le> 48"

definition calculate_endpoint ::
    "builtins \<Rightarrow> yfinance \<Rightarrow> CalculatorRequest \<Rightarrow> projection http" where
  "calculate_endpoint py yf request =
     (case calculate_projection py yf (req_ticker request) (req_amount request)
             (req_months request) of
        Error e \<Rightarrow> HTTPException 422 e []
      | Result result \<Rightarrow> Response result)"


section \<open>Authentication (\<^verbatim>\<open>auth.py\<close>, \<^verbatim>\<open>router_auth.py\<close>)\<close>

text \<open>
  A row of the table \<^verbatim>\<open>users\<close>; the database session is known by the rows of the table,
  and \<^verbatim>\<open>query(User).filter(...).first()\<close> is the first row that passes the filter.
\<close>

record User =
  user_id :: int
  user_name :: string
  user_email :: "string option"
  user_age :: "int option"
  user_monthly_income :: "real option"
  user_password_hash :: "string option"

type_synonym Session = "User list"

text \<open>
  The token library: \<^verbatim>\<open>jwt.encode\<close> and \<^verbatim>\<open>jwt.decode\<close> under the key and algorithm of
  the module; decoding raises \<^verbatim>\<open>JWTError\<close> on a token that it does not accept. Time is
  counted in minutes. The password library: \<^verbatim>\<open>bcrypt.checkpw\<close>, which may raise.
\<close>

record token_claims =
  sub :: "string option"
  exp :: "int option"

record jose =
  encode :: "token_claims \<Rightarrow> string"
  decode :: "string \<Rightarrow> exn + token_claims"

definition ACCESS_TOKEN_EXPIRE_MINUTES :: int where
  "ACCESS_TOKEN_EXPIRE_MINUTES = 60 * 24"

definition verify_password ::
    "(string \<Rightarrow> string \<Rightarrow> exn + bool) \<Rightarrow> string \<Rightarrow> string \<Rightarrow> exn + bool" where
  "verify_password checkpw plain hashed = checkpw plain hashed"

definition create_access_token :: "jose \<Rightarrow> int \<Rightarrow> string \<Rightarrow> int option \<Rightarrow> string" where
  "create_access_token jwt utcnow subject expires_delta =
     (let expire = utcnow + (case expires_delta of
                               None \<Rightarrow> 15
                             | Some d \<Rightarrow> if d = 0 then 15 else d)
      in encode jwt \<lparr>sub = Some subject, exp = Some expire\<rparr>)"

text \<open>
  The query \<^verbatim>\<open>db.query(User).filter(User.id == i).first()\<close>. The database is SQLite,
  whose driver raises \<^verbatim>\<open>OverflowError\<close> when it is given an integer outside 64 bits.
\<close>

definition query_user_by_id :: "Session \<Rightarrow> int \<Rightarrow> exn + User option" where
  "query_user_by_id db i =
     (if i < - (2 ^ 63) \<or> 2 ^ 63 \<le> i then
        Inl ''Python int too large to convert to SQLite INTEGER''
      else Inr (find (\<lambda>u. user_id u = i) db))"

definition credentials_exception :: "'a http" where
  "credentials_exception =
     HTTPException 401 (''Token inv'' @ [CHR 0xC3, CHR 0xA1] @ ''lido o expirado'')
       [(''WWW-Authenticate'', ''Bearer'')]"

definition get_current_user :: "builtins \<Rightarrow> jose \<Rightarrow> Session \<Rightarrow> string \<Rightarrow> User http" where
  "get_current_user py jwt db token =
     (case decode jwt token of
        Inl e \<Rightarrow> credentials_exception
      | Inr payload \<Rightarrow>
         (case sub payload of
            None \<Rightarrow> credentials_exception
          | Some uid \<Rightarrow>
             (case int_of_str py uid of
                Inl e \<Rightarrow> Unhandled e
              | Inr i \<Rightarrow>
                 (case query_user_by_id db i of
                    Inl e \<Rightarrow> Unhandled e
                  | Inr None \<Rightarrow> credentials_exception
                  | Inr (Some user) \<Rightarrow> Response user))))"

record OAuth2PasswordRequestForm =
  username :: string
  password :: string

record TokenResponse =
  access_token :: string
  token_type :: string
  token_user_id :: int
  token_name :: string

definition login ::
    "(string \<Rightarrow> string \<Rightarrow> exn + bool) \<Rightarrow> jose \<Rightarrow> int \<Rightarrow> Session \<Rightarrow> OAuth2PasswordRequestForm
      \<Rightarrow> TokenResponse http" where
  "login checkpw jwt utcnow db form =
     (let unauthorized = HTTPException 401 (''Email o contrase'' @ [CHR 0xC3, CHR 0xB1] @ ''a incorrectos'') []
      in case find (\<lambda>u. user_email u = Some (username form)) db of
           None \<Rightarrow> unauthorized
         | Some user \<Rightarrow>
            (case user_password_hash user of
               None \<Rightarrow> unauthorized
             | Some hashed \<Rightarrow>
                if hashed = [] then unauthorized
                else
                  (case verify_password checkpw (password form) hashed of
                     Inl e \<Rightarrow> Unhandled e
                   | Inr ok \<Rightarrow>
                      if \<not> ok then unauthorized
                      else
                        let token = create_access_token jwt utcnow (str_int (user_id user))
                                      (Some ACCESS_TOKEN_EXPIRE_MINUTES)
                        in Response
                             \<lparr>access_token = token, token_type = ''bearer'',
                              token_user_id = user_id user,
                              token_name = user_name user\<rparr>)))"


section \<open>Example environments\<close>

text \<open>
  The environments on which the theorems below are applied. First the built-in methods
  on texts whose letters, digits and white space are ASCII, which is the case of every
  text of the examples: on such a text \<^verbatim>\<open>upper\<close> and \<^verbatim>\<open>lower\<close> change the 26 letters and
  nothing else, \<^verbatim>\<open>split\<close> and \<^verbatim>\<open>strip\<close> know the ten ASCII white space characters, and
  \<^verbatim>\<open>int\<close> reads an optional sign and decimal digits with single underscores between them.
\<close>

definition ascii_lowercase :: string where
  "ascii_lowercase = ''abcdefghijklmnopqrstuvwxyz''"

definition upper_char :: "char \<Rightarrow> char" where
  "upper_char c =
     (case map_of (zip ascii_lowercase ascii_uppercase) c of Some u \<Rightarrow> u | None \<Rightarrow> c)"

definition lower_char :: "char \<Rightarrow> char" where
  "lower_char c =
     (case map_of (zip ascii_uppercase ascii_lowercase) c of Some l \<Rightarrow> l | None \<Rightarrow> c)"

definition ascii_space :: "char \<Rightarrow> bool" where
  "ascii_space c \<longleftrightarrow>
     c \<in> set [CHR 0x09, CHR 0x0A, CHR 0x0B, CHR 0x0C, CHR 0x0D,
              CHR 0x1C, CHR 0x1D, CHR 0x1E, CHR 0x1F, CHR 0x20]"

fun split_from :: "string \<Rightarrow> string \<Rightarrow> string list" where
  "split_from cur [] = (if cur = [] then [] else [cur])"
| "split_from cur (c # cs) =
     (if ascii_space c then (if cur = [] then split_from [] cs else cur # split_from [] cs)
      else split_from (cur @ [c]) cs)"

definition ascii_strip :: "string \<Rightarrow> string" where
  "ascii_strip s = rev (dropWhile ascii_space (rev (dropWhile ascii_space s)))"

definition digits :: "char list" where
  "digits = ''0123456789''"

definition digit_value :: "char \<Rightarrow> int" where
  "digit_value c = int (length (takeWhile (\<lambda>d. d \<noteq> c) digits))"

definition int_literal :: "string \<Rightarrow> bool" where
  "int_literal body \<longleftrightarrow>
     body \<noteq> [] \<and> list_all (\<lambda>c. c \<in> set digits \<or> c = CHR ''_'') body \<and>
     hd body \<noteq> CHR ''_'' \<and> last body \<noteq> CHR ''_'' \<and> \<not> str_in ''__'' body"

definition ascii_int :: "string \<Rightarrow> exn + int" where
  "ascii_int s =
     (let t = ascii_strip s;
          negative = (t \<noteq> [] \<and> hd t = CHR ''-'');
          body = (if t \<noteq> [] \<and> (hd t = CHR ''-'' \<or> hd t = CHR ''+'') then tl t else t)
      in if int_literal body then
           let n = foldl (\<lambda>a c. 10 * a + digit_value c) 0
                     (filter (\<lambda>c. c \<noteq> CHR ''_'') body)
           in Inr (if negative then - n else n)
         else Inl (''invalid literal for int() with base 10: '' @ [CHR 0x27] @ s @ [CHR 0x27]))"

definition ascii_builtins :: builtins where
  "ascii_builtins =
     \<lparr>str_upper = map upper_char,
      str_lower = map lower_char,
      str_split = split_from [],
      str_strip = ascii_strip,
      int_of_str = ascii_int\<rparr>"

text \<open>
  A market data provider that answers every request with the same column of closing
  prices and the same mean monthly return, and one that is out of reach.
\<close>

definition example_hist :: "real option list \<Rightarrow> real \<Rightarrow> data_frame" where
  "example_hist closes avg =
     \<lparr>df_empty = (closes = []), df_close = closes,
      df_monthly = Inr \<lparr>ms_len = 24,
                        ms_stats = Inr (avg, ''Nov 2024 '' @ [CHR 0xE2, CHR 0x80, CHR 0x93] @ '' Nov 2026'')\<rparr>\<rparr>"

definition example_yf :: "real option list \<Rightarrow> real \<Rightarrow> yfinance" where
  "example_yf closes avg =
     \<lparr>Ticker = (\<lambda>symbol.
        \<lparr>history = (\<lambda>period. Inr (example_hist closes avg)),
         info = Inr \<lparr>longName = Some ''Apple Inc.'', shortName = Some ''Apple''\<rparr>\<rparr>),
      download = (\<lambda>tickers period.
        Inr \<lparr>by_ticker = (\<lambda>symbol. Inr closes), flat_close = Inr closes\<rparr>)\<rparr>"

definition offline_yf :: yfinance where
  "offline_yf =
     \<lparr>Ticker = (\<lambda>symbol.
        \<lparr>history = (\<lambda>period. Inl ''connection refused''),
         info = Inl ''connection refused''\<rparr>),
      download = (\<lambda>tickers period. Inl ''connection refused'')\<rparr>"

text \<open>
  A language model client that answers every prompt with the same text, one that is out
  of reach, and a JSON parser that knows the empty object and the empty array.
\<close>

definition reply_client :: "string \<Rightarrow> genai_client" where
  "reply_client response_text =
     \<lparr>generate_content = (\<lambda>model_name contents. Inr (Some response_text))\<rparr>"




text \<open>
  A table of two users, the second without a password hash; a password check that
  accepts one password and, as the password library does, raises on a password of more
  than 72 bytes; a token library that accepts five tokens, of which one has no subject,
  one the subject of no user, one a subject that is no number and one the subject
  \<open>2\<^sup>6\<^sup>3\<close>.
\<close>

definition example_db :: Session where
  "example_db =
     [\<lparr>user_id = 1, user_name = ''Ana'', user_email = Some ''ana@example.com'',
       user_age = None, user_monthly_income = None,
       user_password_hash = Some ''$2b$12$hash''\<rparr>,
      \<lparr>user_id = 2, user_name = ''Luis'', user_email = Some ''luis@example.com'',
       user_age = None, user_monthly_income = None,
       user_password_hash = None\<rparr>]"

definition example_checkpw :: "string \<Rightarrow> string \<Rightarrow> exn + bool" where
  "example_checkpw plain hashed =
     (if 72 < length plain then Inl
        (''password cannot be longer than 72 bytes, truncate manually if ''
         @ ''necessary (e.g. my_password[:72])'')
      else Inr (plain = ''secret'' \<and> hashed = ''$2b$12$hash''))"

definition example_jwt :: jose where
  "example_jwt =
     \<lparr>encode = (\<lambda>claims. ''signed''),
      decode = (\<lambda>token.
        if token = ''good'' then Inr \<lparr>sub = Some ''1'', exp = Some 1440\<rparr>
        else if token = ''nosub'' then Inr \<lparr>sub = None, exp = Some 1440\<rparr>
        else if token = ''ghost'' then Inr \<lparr>sub = Some ''99'', exp = Some 1440\<rparr>
        else if token = ''letters'' then Inr \<lparr>sub = Some ''abc'', exp = Some 1440\<rparr>
        else if token = ''huge'' then
          Inr \<lparr>sub = Some ''9223372036854775808'', exp = Some 1440\<rparr>
        else Inl ''Signature verification failed'')\<rparr>"


section \<open>The ticker resolver: proofs\<close>

subsection \<open>Library functions against their specifications\<close>



subsection \<open>The keyword loop\<close>



subsection \<open>The search for a cash tag\<close>












subsection \<open>The loop over the words\<close>




subsection \<open>The replacement of the punctuation\<close>


lemma lead_not_punctuation: "CHR 0xC2 \<notin> set punctuation"
  by (simp add: punctuation_def)



lemma sub_punctuation_length: "length (sub_punctuation s) \<le> length s"
  by (induction s rule: sub_punctuation.induct) auto





subsection \<open>The claims about the resolver\<close>


text \<open>
  Claim C3. On the first two examples of the specification the resolver answers as
  specified: \<^verbatim>\<open>"BTC-USD"\<close> for \<^verbatim>\<open>"quiero comprar bitcoin"\<close> and \<^verbatim>\<open>"AAPL"\<close> for
  \<^verbatim>\<open>"$AAPL a buen precio"\<close>. On the third, \<^verbatim>\<open>"hola que tal"\<close>, it answers \<^verbatim>\<open>"HOLA"\<close> where
  the specification, and the function's own documentation (``all-caps 2--5 letter
  words'', ``Returns UNKNOWN if nothing found''), want \<^verbatim>\<open>"UNKNOWN"\<close>: the third step
  puts each word in capitals before it keeps the capital letters, so that every word of
  two to five letters that is not a stop word is taken for a ticker.
\<close>

theorem resolver_examples:
  "extract_ticker_from_message ascii_builtins ''quiero comprar bitcoin'' = ''BTC-USD'' \<and>
   extract_ticker_from_message ascii_builtins ''$AAPL a buen precio'' = ''AAPL'' \<and>
   extract_ticker_from_message ascii_builtins ''hola que tal'' = ''HOLA'' \<and>
   extract_ticker_from_message ascii_builtins ''hola que tal'' \<noteq> ''UNKNOWN''"
  by code_simp



section \<open>The projection calculator: proofs\<close>

subsection \<open>Rounding\<close>

lemma round_half_even_of_int: "round_half_even (of_int k) = k"
  by (simp add: round_half_even_def)

lemma py_round_idem: "py_round (py_round x n) n = py_round x n"
  by (simp add: py_round_def round_half_even_of_int)

lemma round_half_even_nonneg: "0 \<le> y \<Longrightarrow> 0 \<le> round_half_even y"
  by (auto simp: round_half_even_def Let_def)

lemma py_round_nonneg: "0 \<le> x \<Longrightarrow> 0 \<le> py_round x n"
  by (simp add: py_round_def round_half_even_nonneg)

lemma py_round_zero: "py_round 0 n = 0"
  by (simp add: py_round_def round_half_even_def)

subsection \<open>The loop over the months\<close>

lemma projection_loop_Cons:
  "projection_loop amount avg (m # ms) cur acc =
     (if amount = 0 then Inl ZeroDivisionError
      else projection_loop amount avg ms (cur * (1 + avg))
             (acc @ [\<lparr>month = m, value = py_round (cur * (1 + avg)) 2,
                      gain = py_round (cur * (1 + avg) - amount) 2,
                      gain_pct = py_round ((cur * (1 + avg) - amount) / amount * 100) 2\<rparr>]))"
  by (simp add: projection_loop.simps Let_def py_div_def)

lemma projection_loop_Nil: "projection_loop amount avg [] cur acc = Inr (cur, acc)"
  by (simp add: projection_loop.simps)

lemma projection_loop_months:
  "projection_loop amount avg ms cur acc = Inr (cur', bd) \<Longrightarrow>
     map month bd = map month acc @ ms"
proof (induction ms arbitrary: cur acc)
  case Nil
  then show ?case by (simp add: projection_loop_Nil)
next
  case (Cons m ms)
  from Cons.prems have "amount \<noteq> 0"
    by (auto simp: projection_loop_Cons split: if_splits)
  with Cons.prems Cons.IH show ?case
    by (simp add: projection_loop_Cons)
qed

lemma projection_loop_last:
  "projection_loop amount avg ms cur acc = Inr (cur', bd) \<Longrightarrow> ms \<noteq> [] \<Longrightarrow>
     value (last bd) = py_round cur' 2"
proof (induction ms arbitrary: cur acc)
  case Nil
  then show ?case by simp
next
  case (Cons m ms)
  from Cons.prems have nz: "amount \<noteq> 0"
    by (auto simp: projection_loop_Cons split: if_splits)
  let ?acc = "acc @ [\<lparr>month = m, value = py_round (cur * (1 + avg)) 2,
                      gain = py_round (cur * (1 + avg) - amount) 2,
                      gain_pct = py_round ((cur * (1 + avg) - amount) / amount * 100) 2\<rparr>]"
  from Cons.prems nz have step: "projection_loop amount avg ms (cur * (1 + avg)) ?acc = Inr (cur', bd)"
    by (simp add: projection_loop_Cons)
  show ?case
  proof (cases ms)
    case Nil
    with step show ?thesis by (auto simp: projection_loop_Nil)
  next
    case (Cons m' ms')
    then have "ms \<noteq> []" by simp
    with step show ?thesis by (rule Cons.IH)
  qed
qed

lemma projection_body_Result:
  assumes "projection_body yf tkr amount months = Inr (Result p)"
  shows "\<exists>avg cur. projection_loop amount avg [1..months] amount [] = Inr (cur, monthly_breakdown p) \<and>
         monthly_breakdown p \<noteq> [] \<and>
         final_value p = py_round (value (last (monthly_breakdown p))) 2"
  using assms unfolding projection_body_def Let_def
  by (auto split: sum.splits if_splits prod.splits) blast

lemma projection_body_shape:
  assumes "projection_body yf tkr amount months = Inr (Result p)"
  shows "map month (monthly_breakdown p) = [1..months] \<and>
         final_value p = value (last (monthly_breakdown p))"
proof -
  from projection_body_Result[OF assms] obtain avg cur where
    loop: "projection_loop amount avg [1..months] amount [] = Inr (cur, monthly_breakdown p)"
    and ne: "monthly_breakdown p \<noteq> []"
    and fv: "final_value p = py_round (value (last (monthly_breakdown p))) 2"
    by blast
  from projection_loop_months[OF loop] have m: "map month (monthly_breakdown p) = [1..months]"
    by simp
  with ne have "[1..months] \<noteq> []" by auto
  from projection_loop_last[OF loop this] fv
  show ?thesis using m by (simp add: py_round_idem)
qed

lemma projection_loop_zero_return:
  "amount \<noteq> 0 \<Longrightarrow>
   projection_loop amount 0 ms amount acc =
     Inr (amount, acc @ map (\<lambda>m. \<lparr>month = m, value = py_round amount 2, gain = 0, gain_pct = 0\<rparr>) ms)"
  by (induction ms arbitrary: acc) (simp_all add: projection_loop_Nil projection_loop_Cons py_round_zero)

subsection \<open>The annualized return\<close>

lemma py_pow_nonneg: "0 \<le> a \<Longrightarrow> 0 < b \<Longrightarrow> \<exists>p. py_pow a b = Inr (Some p)"
  by (simp add: py_pow_def)

lemma annualized_return_nonneg:
  assumes "amount \<noteq> 0" and "1 \<le> months" and "0 \<le> final / amount"
  shows "\<exists>a. annualized_return final amount months = Inr a"
proof -
  have y: "0 < real_of_int months / 12" using assms(2) by simp
  then have e: "0 < 1 / (real_of_int months / 12)" by simp
  from py_pow_nonneg[OF assms(3) e] obtain p
    where "py_pow (final / amount) (1 / (real_of_int months / 12)) = Inr (Some p)" by blast
  with assms(1) y show ?thesis
    by (simp add: annualized_return_def Let_def py_div_def)
qed

subsection \<open>When the calculator answers with an error\<close>

lemma projection_body_early_history:
  "history (Ticker yf tkr) ''2y'' = Inr hist \<Longrightarrow> df_empty hist \<or> length (df_close hist) < 20 \<Longrightarrow>
   \<exists>detail. projection_body yf tkr amount months = Inr (Error detail)"
  by (auto simp: projection_body_def)

lemma projection_body_early_monthly:
  "history (Ticker yf tkr) ''2y'' = Inr hist \<Longrightarrow> df_monthly hist = Inr monthly_prices \<Longrightarrow>
   ms_len monthly_prices < 2 \<Longrightarrow>
   \<exists>detail. projection_body yf tkr amount months = Inr (Error detail)"
  by (auto simp: projection_body_def)

lemma projection_body_Error:
  "projection_body yf tkr amount months = Inr (Error detail) \<Longrightarrow>
   (\<exists>hist. history (Ticker yf tkr) ''2y'' = Inr hist \<and>
           (df_empty hist \<or> length (df_close hist) < 20)) \<or>
   (\<exists>hist monthly_prices. history (Ticker yf tkr) ''2y'' = Inr hist \<and>
           df_monthly hist = Inr monthly_prices \<and> ms_len monthly_prices < 2)"
  unfolding projection_body_def Let_def
  by (auto split: sum.splits if_splits prod.splits)

lemma calculate_projection_cases:
  "calculate_projection py yf symbol amount months =
     (case projection_body yf (str_strip py (str_upper py symbol)) amount months of
        Inr r \<Rightarrow> r
      | Inl e \<Rightarrow>
          Error (''No se pudo calcular la proyecci'' @ [CHR 0xC3, CHR 0xB3] @ ''n para ''
                 @ str_strip py (str_upper py symbol) @ '': '' @ e))"
  by (simp add: calculate_projection_def Let_def)


subsection \<open>The claims about the calculator\<close>

text \<open>
  Claim C1. For every valid input (\<open>amount \<ge> 10\<close>, \<open>months\<close> an integer from 1 to 48)
  on which \<^verbatim>\<open>calculate_projection\<close> returns a projection, the monthly breakdown has
  exactly \<open>months\<close> entries, their month indices are 1, 2, ..., \<open>months\<close> in this order,
  and the final value of the result is the value of the last entry.
\<close>

theorem projection_breakdown_shape:
  assumes "calculate_projection py yf symbol amount months = Result p"
    and "10 \<le> amount" and "1 \<le> months" and "months \<le> 48"
  shows "length (monthly_breakdown p) = nat months \<and>
         map month (monthly_breakdown p) = [1..months] \<and>
         final_value p = value (last (monthly_breakdown p))"
proof -
  from assms(1) have "projection_body yf (str_strip py (str_upper py symbol)) amount months = Inr (Result p)"
    by (auto simp: calculate_projection_def Let_def split: sum.splits)
  then have *: "map month (monthly_breakdown p) = [1..months]"
     "final_value p = value (last (monthly_breakdown p))"
    using projection_body_shape by blast+
  from *(1) have "length (monthly_breakdown p) = length [1..months]"
    by (metis length_map)
  with * show ?thesis by simp
qed

theorem projection_breakdown_shape_witness:
  "(10::real) \<le> 100 \<and> (1::int) \<le> 2 \<and> (2::int) \<le> 48 \<and>
   is_Result (calculate_projection ascii_builtins (example_yf (replicate 20 (Some 100)) (1 / 100)) '' aapl '' 100 2) \<and>
   length (monthly_breakdown (the_result
     (calculate_projection ascii_builtins (example_yf (replicate 20 (Some 100)) (1 / 100)) '' aapl '' 100 2))) = nat 2 \<and>
   map month (monthly_breakdown (the_result
     (calculate_projection ascii_builtins (example_yf (replicate 20 (Some 100)) (1 / 100)) '' aapl '' 100 2))) = [1..2] \<and>
   final_value (the_result
     (calculate_projection ascii_builtins (example_yf (replicate 20 (Some 100)) (1 / 100)) '' aapl '' 100 2)) =
   value (last (monthly_breakdown (the_result
     (calculate_projection ascii_builtins (example_yf (replicate 20 (Some 100)) (1 / 100)) '' aapl '' 100 2))))"
proof -
  let ?r = "calculate_projection ascii_builtins (example_yf (replicate 20 (Some 100)) (1 / 100)) '' aapl '' 100 2"
  have ok: "is_Result ?r" by code_simp
  then have r: "?r = Result (the_result ?r)" by simp
  have "length (monthly_breakdown (the_result ?r)) = nat 2 \<and>
        map month (monthly_breakdown (the_result ?r)) = [1..2] \<and>
        final_value (the_result ?r) = value (last (monthly_breakdown (the_result ?r)))"
    by (rule projection_breakdown_shape[OF r]) simp_all
  with ok show ?thesis by simp
qed

text \<open>
  Claim C2. \<^verbatim>\<open>calculate_projection\<close> answers with an error dictionary exactly when the
  daily history is empty or has fewer than 20 rows, or the monthly series has fewer than 2
  closes, or an exception is raised in the \<^verbatim>\<open>try\<close> block, as when the fetch itself
  raises. In the last case the error text carries the normalised ticker and the text of
  the exception. The endpoint turns every error dictionary into the status 422 with the
  error text as its detail.
\<close>

theorem projection_error_cases:
  assumes "tkr = str_strip py (str_upper py symbol)"
  shows
   "(is_Error (calculate_projection py yf symbol amount months) \<longleftrightarrow>
       (\<exists>hist. history (Ticker yf tkr) ''2y'' = Inr hist \<and>
              (df_empty hist \<or> length (df_close hist) < 20)) \<or>
       (\<exists>hist monthly_prices. history (Ticker yf tkr) ''2y'' = Inr hist \<and>
              df_monthly hist = Inr monthly_prices \<and> ms_len monthly_prices < 2) \<or>
       (\<exists>e. projection_body yf tkr amount months = Inl e)) \<and>
    (\<forall>e. history (Ticker yf tkr) ''2y'' = Inl e \<longrightarrow>
         projection_body yf tkr amount months = Inl e) \<and>
    (\<forall>e. projection_body yf tkr amount months = Inl e \<longrightarrow>
         calculate_projection py yf symbol amount months =
           Error (''No se pudo calcular la proyecci'' @ [CHR 0xC3, CHR 0xB3] @ ''n para ''
                  @ tkr @ '': '' @ e)) \<and>
    (\<forall>(request::CalculatorRequest) detail.
         calculate_projection py yf (req_ticker request) (req_amount request) (req_months request)
           = Error detail \<longrightarrow>
         calculate_endpoint py yf request = HTTPException 422 detail [])"
proof (intro conjI allI impI)
  show "is_Error (calculate_projection py yf symbol amount months) \<longleftrightarrow>
       (\<exists>hist. history (Ticker yf tkr) ''2y'' = Inr hist \<and>
              (df_empty hist \<or> length (df_close hist) < 20)) \<or>
       (\<exists>hist monthly_prices. history (Ticker yf tkr) ''2y'' = Inr hist \<and>
              df_monthly hist = Inr monthly_prices \<and> ms_len monthly_prices < 2) \<or>
       (\<exists>e. projection_body yf tkr amount months = Inl e)"
    (is "?E \<longleftrightarrow> ?H \<or> ?M \<or> ?X")
  proof (cases "projection_body yf tkr amount months")
    case (Inl e)
    then show ?thesis using assms by (auto simp: calculate_projection_cases)
  next
    case (Inr r)
    then have nx: "\<not> ?X" by simp
    have c: "calculate_projection py yf symbol amount months = r"
      using Inr assms by (simp add: calculate_projection_cases)
    show ?thesis
    proof (cases r)
      case (Error detail)
      with Inr have "?H \<or> ?M" using projection_body_Error by blast
      with c Error show ?thesis by auto
    next
      case (Result p)
      have "\<not> ?H" using projection_body_early_history[of yf tkr _ amount months] Inr Result
        by fastforce
      moreover have "\<not> ?M" using projection_body_early_monthly[of yf tkr _ _ amount months] Inr Result
        by fastforce
      ultimately show ?thesis using c Result nx by simp
    qed
  qed
next
  fix e assume "history (Ticker yf tkr) ''2y'' = Inl e"
  then show "projection_body yf tkr amount months = Inl e"
    by (simp add: projection_body_def)
next
  fix e assume "projection_body yf tkr amount months = Inl e"
  then show "calculate_projection py yf symbol amount months =
           Error (''No se pudo calcular la proyecci'' @ [CHR 0xC3, CHR 0xB3] @ ''n para ''
                  @ tkr @ '': '' @ e)"
    using assms by (simp add: calculate_projection_cases)
next
  fix request :: CalculatorRequest and detail
  assume "calculate_projection py yf (req_ticker request) (req_amount request) (req_months request)
           = Error detail"
  then show "calculate_endpoint py yf request = HTTPException 422 detail []"
    by (simp add: calculate_endpoint_def)
qed

theorem projection_error_cases_witness:
  "''AAPL'' = str_strip ascii_builtins (str_upper ascii_builtins '' aapl '') \<and>
   history (Ticker offline_yf ''AAPL'') ''2y'' = Inl ''connection refused'' \<and>
   is_Error (calculate_projection ascii_builtins offline_yf '' aapl '' 100 12) \<and>
   calculate_projection ascii_builtins offline_yf '' aapl '' 100 12 =
     Error (''No se pudo calcular la proyecci'' @ [CHR 0xC3, CHR 0xB3] @ ''n para ''
            @ ''AAPL'' @ '': '' @ ''connection refused'') \<and>
   calculate_endpoint ascii_builtins offline_yf \<lparr>req_ticker = '' aapl '', req_amount = 100, req_months = 12\<rparr> =
     HTTPException 422
       (''No se pudo calcular la proyecci'' @ [CHR 0xC3, CHR 0xB3] @ ''n para ''
        @ ''AAPL'' @ '': '' @ ''connection refused'') [] \<and>
   projection_body (example_yf (replicate 20 (Some 100)) (- 3)) ''AAPL'' 100 5 =
     Inl TypeError_round_complex \<and>
   calculate_projection ascii_builtins (example_yf (replicate 20 (Some 100)) (- 3)) '' aapl '' 100 5 =
     Error (''No se pudo calcular la proyecci'' @ [CHR 0xC3, CHR 0xB3] @ ''n para ''
            @ ''AAPL'' @ '': '' @ TypeError_round_complex) \<and>
   df_close (example_hist (replicate 19 (Some 100)) 0) = replicate 19 (Some 100) \<and>
   is_Error (calculate_projection ascii_builtins (example_yf (replicate 19 (Some 100)) 0) '' aapl '' 100 5)"
proof -
  have t: "''AAPL'' = str_strip ascii_builtins (str_upper ascii_builtins '' aapl '')" by code_simp
  have h: "history (Ticker offline_yf ''AAPL'') ''2y'' = Inl ''connection refused''"
    by (simp add: offline_yf_def)
  note T = projection_error_cases[OF t, of offline_yf 100 12]
  from T h have b: "projection_body offline_yf ''AAPL'' 100 12 = Inl ''connection refused''"
    by blast
  with T have e: "is_Error (calculate_projection ascii_builtins offline_yf '' aapl '' 100 12)"
    by blast
  from T b have c: "calculate_projection ascii_builtins offline_yf '' aapl '' 100 12 =
     Error (''No se pudo calcular la proyecci'' @ [CHR 0xC3, CHR 0xB3] @ ''n para ''
            @ ''AAPL'' @ '': '' @ ''connection refused'')"
    by blast
  have "calculate_projection ascii_builtins offline_yf
          (req_ticker \<lparr>req_ticker = '' aapl '', req_amount = 100, req_months = 12\<rparr>)
          (req_amount \<lparr>req_ticker = '' aapl '', req_amount = 100, req_months = 12\<rparr>)
          (req_months \<lparr>req_ticker = '' aapl '', req_amount = 100, req_months = 12\<rparr>) =
     Error (''No se pudo calcular la proyecci'' @ [CHR 0xC3, CHR 0xB3] @ ''n para ''
            @ ''AAPL'' @ '': '' @ ''connection refused'')"
    using c by simp
  with T have "calculate_endpoint ascii_builtins offline_yf
                 \<lparr>req_ticker = '' aapl '', req_amount = 100, req_months = 12\<rparr> =
     HTTPException 422
       (''No se pudo calcular la proyecci'' @ [CHR 0xC3, CHR 0xB3] @ ''n para ''
        @ ''AAPL'' @ '': '' @ ''connection refused'') []"
    by blast
  then have w: "calculate_endpoint ascii_builtins offline_yf
                 \<lparr>req_ticker = '' aapl '', req_amount = 100, req_months = 12\<rparr> =
     HTTPException 422
       (''No se pudo calcular la proyecci'' @ [CHR 0xC3, CHR 0xB3] @ ''n para ''
        @ ''AAPL'' @ '': '' @ ''connection refused'') []" .
  \<comment> \<open>an exception while computing: rounding a complex annualized return\<close>
  let ?neg = "example_yf (replicate 20 (Some 100)) (- 3)"
  have x: "projection_body ?neg ''AAPL'' 100 5 = Inl TypeError_round_complex"
    by code_simp
  with projection_error_cases[OF t, of ?neg 100 5]
  have y: "calculate_projection ascii_builtins ?neg '' aapl '' 100 5 =
     Error (''No se pudo calcular la proyecci'' @ [CHR 0xC3, CHR 0xB3] @ ''n para ''
            @ ''AAPL'' @ '': '' @ TypeError_round_complex)"
    by blast
  \<comment> \<open>fewer than 20 daily observations\<close>
  let ?short = "example_yf (replicate 19 (Some 100)) 0"
  have d: "df_close (example_hist (replicate 19 (Some 100)) 0) = replicate 19 (Some 100)"
    by (simp add: example_hist_def)
  have "history (Ticker ?short ''AAPL'') ''2y'' = Inr (example_hist (replicate 19 (Some 100)) 0) \<and>
        (df_empty (example_hist (replicate 19 (Some 100)) 0) \<or>
         length (df_close (example_hist (replicate 19 (Some 100)) 0)) < 20)"
    by (simp add: example_yf_def example_hist_def)
  with projection_error_cases[OF t, of ?short 100 5]
  have z: "is_Error (calculate_projection ascii_builtins ?short '' aapl '' 100 5)"
    by blast
  from t h e c w x y d z show ?thesis by blast
qed


text \<open>
  Claim C5, as stated, fails: with a mean monthly return of zero and the valid amount
  10.126 the calculator returns a projection whose entries have the value 10.13.
\<close>

theorem zero_return_value_counterexample:
  "is_Result (calculate_projection ascii_builtins (example_yf (replicate 20 (Some 100)) 0) ''AAPL'' (5063 / 500) 12) \<and>
   value (hd (monthly_breakdown (the_result
     (calculate_projection ascii_builtins (example_yf (replicate 20 (Some 100)) 0) ''AAPL'' (5063 / 500) 12))))
     \<noteq> 5063 / 500 \<and>
   final_value (the_result
     (calculate_projection ascii_builtins (example_yf (replicate 20 (Some 100)) 0) ''AAPL'' (5063 / 500) 12))
     \<noteq> 5063 / 500"
  by code_simp

text \<open>
  Claim C5, as amended. For every valid input, when the mean monthly return that the
  calculator reads is 0, the calculator returns a projection in which every entry has the
  amount rounded to two decimals as its value, the gain 0 and the gain percentage 0, and
  whose final value is the amount rounded to two decimals. When the amount has no more
  than two decimals, every value and the final value equal the amount, and the total
  gain and its percentage are 0.
\<close>

theorem zero_return_projection:
  assumes "10 \<le> amount" and "1 \<le> months" and "months \<le> 48"
    and "history (Ticker yf (str_strip py (str_upper py symbol))) ''2y'' = Inr hist"
    and "\<not> df_empty hist" and "20 \<le> length (df_close hist)"
    and "df_monthly hist = Inr monthly_prices" and "2 \<le> ms_len monthly_prices"
    and "ms_stats monthly_prices = Inr (0, period)"
  shows "\<exists>p. calculate_projection py yf symbol amount months = Result p \<and>
           length (monthly_breakdown p) = nat months \<and>
           (\<forall>entry \<in> set (monthly_breakdown p).
              value entry = py_round amount 2 \<and> gain entry = 0 \<and> gain_pct entry = 0) \<and>
           final_value p = py_round amount 2 \<and>
           (py_round amount 2 = amount \<longrightarrow>
              (\<forall>entry \<in> set (monthly_breakdown p). value entry = amount) \<and>
              final_value p = amount \<and> total_gain p = 0 \<and> total_gain_pct p = 0)"
proof -
  let ?tkr = "str_strip py (str_upper py symbol)"
  let ?entry = "\<lambda>m. \<lparr>month = m, value = py_round amount 2, gain = 0, gain_pct = 0\<rparr>"
  let ?bd = "map ?entry [1..months]"
  from assms(1) have nz: "amount \<noteq> 0" by simp
  have loop: "projection_loop amount 0 [1..months] amount [] = Inr (amount, ?bd)"
    using projection_loop_zero_return[OF nz, of "[1..months]" "[]"] by simp
  from assms(2) have ne: "?bd \<noteq> []" by simp
  have lst: "value (last ?bd) = py_round amount 2"
    using ne by (simp add: last_map)
  have "0 \<le> py_round amount 2" using assms(1) by (intro py_round_nonneg) simp
  then have "0 \<le> py_round amount 2 / amount" using assms(1) by simp
  from annualized_return_nonneg[OF nz assms(2) this] obtain a
    where ann: "annualized_return (py_round amount 2) amount months = Inr a" by blast
  define p where "p =
     \<lparr>ticker = ?tkr,
      asset_name = (case map_of ASSET_NAMES ?tkr of Some n \<Rightarrow> n | None \<Rightarrow> ?tkr),
      initial_amount = py_round amount 2,
      final_value = py_round (py_round amount 2) 2,
      total_gain = py_round (py_round amount 2 - amount) 2,
      total_gain_pct = py_round ((py_round amount 2 - amount) / amount * 100) 2,
      annualized_return_pct = a,
      avg_monthly_return_pct = py_round (0 * 100) 4,
      monthly_breakdown = ?bd,
      data_period = period,
      disclaimer = disclaimer_text\<rparr>"
  have body: "projection_body yf ?tkr amount months = Inr (Result p)"
    unfolding projection_body_def p_def
    using assms(4-9) loop ne lst ann nz
    by (simp add: Let_def py_div_def)
  then have res: "calculate_projection py yf symbol amount months = Result p"
    by (simp add: calculate_projection_cases)
  have len: "length (monthly_breakdown p) = nat months"
    using assms(2) by (simp add: p_def)
  have entries: "\<forall>entry \<in> set (monthly_breakdown p).
      value entry = py_round amount 2 \<and> gain entry = 0 \<and> gain_pct entry = 0"
    by (auto simp: p_def)
  have fv: "final_value p = py_round amount 2"
    by (simp add: p_def py_round_idem)
  have exact: "py_round amount 2 = amount \<longrightarrow>
      (\<forall>entry \<in> set (monthly_breakdown p). value entry = amount) \<and>
      final_value p = amount \<and> total_gain p = 0 \<and> total_gain_pct p = 0"
  proof
    assume eq: "py_round amount 2 = amount"
    have "total_gain p = 0" "total_gain_pct p = 0"
      by (simp_all add: p_def eq py_round_zero)
    with entries fv eq show "(\<forall>entry \<in> set (monthly_breakdown p). value entry = amount) \<and>
      final_value p = amount \<and> total_gain p = 0 \<and> total_gain_pct p = 0"
      by simp
  qed
  from res len entries fv exact show ?thesis by blast
qed

theorem zero_return_projection_witness:
  "(10::real) \<le> 100 \<and> (1::int) \<le> 12 \<and> (12::int) \<le> 48 \<and>
   py_round 100 2 = 100 \<and>
   is_Result (calculate_projection ascii_builtins (example_yf (replicate 20 (Some 100)) 0) ''AAPL'' 100 12) \<and>
   length (monthly_breakdown (the_result
     (calculate_projection ascii_builtins (example_yf (replicate 20 (Some 100)) 0) ''AAPL'' 100 12))) = nat 12 \<and>
   list_all (\<lambda>entry. value entry = 100 \<and> gain entry = 0 \<and> gain_pct entry = 0)
     (monthly_breakdown (the_result
       (calculate_projection ascii_builtins (example_yf (replicate 20 (Some 100)) 0) ''AAPL'' 100 12))) \<and>
   final_value (the_result
     (calculate_projection ascii_builtins (example_yf (replicate 20 (Some 100)) 0) ''AAPL'' 100 12)) = 100 \<and>
   total_gain (the_result
     (calculate_projection ascii_builtins (example_yf (replicate 20 (Some 100)) 0) ''AAPL'' 100 12)) = 0 \<and>
   total_gain_pct (the_result
     (calculate_projection ascii_builtins (example_yf (replicate 20 (Some 100)) 0) ''AAPL'' 100 12)) = 0"
proof -
  let ?yf = "example_yf (replicate 20 (Some 100)) 0"
  let ?r = "calculate_projection ascii_builtins ?yf ''AAPL'' 100 12"
  have t: "str_strip ascii_builtins (str_upper ascii_builtins ''AAPL'') = ''AAPL''" by code_simp
  have h: "history (Ticker ?yf (str_strip ascii_builtins (str_upper ascii_builtins ''AAPL''))) ''2y'' =
             Inr (example_hist (replicate 20 (Some 100)) 0)"
    by (simp add: example_yf_def)
  have e: "\<not> df_empty (example_hist (replicate 20 (Some 100)) 0)"
    by (simp add: example_hist_def)
  have l: "20 \<le> length (df_close (example_hist (replicate 20 (Some 100)) 0))"
    by (simp add: example_hist_def)
  have m: "df_monthly (example_hist (replicate 20 (Some 100)) 0) =
             Inr \<lparr>ms_len = 24,
                  ms_stats = Inr (0, ''Nov 2024 '' @ [CHR 0xE2, CHR 0x80, CHR 0x93] @ '' Nov 2026'')\<rparr>"
    by (simp add: example_hist_def)
  have r100: "py_round 100 2 = 100"
    by (simp add: py_round_def round_half_even_def)
  from zero_return_projection[of 100 12 ?yf ascii_builtins "''AAPL''", OF _ _ _ h e l m]
  obtain p where p: "?r = Result p"
    "length (monthly_breakdown p) = nat 12"
    "\<forall>entry \<in> set (monthly_breakdown p).
        value entry = py_round 100 2 \<and> gain entry = 0 \<and> gain_pct entry = 0"
    "final_value p = py_round 100 2"
    "py_round 100 2 = 100 \<longrightarrow>
       (\<forall>entry \<in> set (monthly_breakdown p). value entry = 100) \<and>
       final_value p = 100 \<and> total_gain p = 0 \<and> total_gain_pct p = 0"
    by auto
  from p(1) have ok: "is_Result ?r" and tr: "the_result ?r = p" by simp_all
  from p(3) r100 have all: "list_all (\<lambda>entry. value entry = 100 \<and> gain entry = 0 \<and> gain_pct entry = 0)
      (monthly_breakdown p)"
    by (simp add: list_all_iff)
  from p(5) r100 have "final_value p = 100 \<and> total_gain p = 0 \<and> total_gain_pct p = 0"
    by blast
  with ok tr p(2) all r100 show ?thesis by simp
qed


section \<open>Market data: proofs\<close>

lemma format_zero: "format_2f False True 0 = ''+0.00''"
  by code_simp

lemma price_change_single: "price_change [p] = Inr (p, p, 0, 0)"
  by (simp add: price_change_def Let_def py_div_def)

lemma price_change_prev_zero:
  assumes "closes \<noteq> []"
    and "(if 2 \<le> length closes then closes ! (length closes - 2) else last closes) = 0"
  shows "price_change closes = Inr (last closes, 0, last closes, 0)"
  using assms by (simp add: price_change_def Let_def)

lemma get_yfinance_data_Result:
  assumes "history (Ticker yf symbol) ''2d'' = Inr hist" and "\<not> df_empty hist"
    and "price_change (dropna (df_close hist)) = Inr (price, prev_price, change, change_pct)"
    and "dropna (df_close hist) \<noteq> []"
  shows "\<exists>snap. get_yfinance_data py yf symbol = Result snap \<and>
           snap_change snap = format_2f False True change \<and>
           snap_change_percent snap = format_2f False True change_pct @ ''%''"
  using assms by (simp add: get_yfinance_data_def Let_def)

lemma batch_row_Some:
  assumes "1 < length tickers_list" and "by_ticker data (top_ticker asset) = Inr column"
    and "price_change (dropna column) = Inr (price, prev_price, change, change_pct)"
    and "dropna column \<noteq> []"
  shows "\<exists>row. batch_row data tickers_list asset = Some row \<and>
           row_change row = py_round change 2 \<and>
           row_change_pct row = py_round change_pct 2"
  using assms by (simp add: batch_row_def Let_def)

text \<open>
  Claim C6. In the fetch of one ticker, when exactly one closing price is left the
  previous price is the latest price, so that the change and its percentage are 0, which
  the snapshot shows as \<^verbatim>\<open>+0.00\<close> and \<^verbatim>\<open>+0.00%\<close>; and whenever the previous price is 0
  the quotient is not taken, nothing is raised and the percentage is 0. The same holds
  for each ticker of the batch, whose row then carries the numbers 0.
\<close>

theorem single_observation_zero_change:
  "price_change [p] = Inr (p, p, 0, 0) \<and>
   (closes \<noteq> [] \<and>
    (if 2 \<le> length closes then closes ! (length closes - 2) else last closes) = 0 \<longrightarrow>
      price_change closes = Inr (last closes, 0, last closes, 0)) \<and>
   (history (Ticker yf symbol) ''2d'' = Inr hist \<and> \<not> df_empty hist \<and>
    dropna (df_close hist) = [p] \<longrightarrow>
      (\<exists>snap. get_yfinance_data py yf symbol = Result snap \<and>
              snap_change snap = ''+0.00'' \<and> snap_change_percent snap = ''+0.00%'')) \<and>
   (history (Ticker yf symbol) ''2d'' = Inr hist \<and> \<not> df_empty hist \<and>
    dropna (df_close hist) = closes \<and> closes \<noteq> [] \<and>
    (if 2 \<le> length closes then closes ! (length closes - 2) else last closes) = 0 \<longrightarrow>
      (\<exists>snap. get_yfinance_data py yf symbol = Result snap \<and>
              snap_change_percent snap = ''+0.00%'')) \<and>
   (1 < length tickers_list \<and> by_ticker data (top_ticker asset) = Inr column \<and>
    dropna column = [p] \<longrightarrow>
      (\<exists>row. batch_row data tickers_list asset = Some row \<and>
             row_change row = 0 \<and> row_change_pct row = 0)) \<and>
   (1 < length tickers_list \<and> by_ticker data (top_ticker asset) = Inr column \<and>
    dropna column = closes \<and> closes \<noteq> [] \<and>
    (if 2 \<le> length closes then closes ! (length closes - 2) else last closes) = 0 \<longrightarrow>
      (\<exists>row. batch_row data tickers_list asset = Some row \<and> row_change_pct row = 0))"
proof (intro conjI impI)
  show "price_change [p] = Inr (p, p, 0, 0)" by (rule price_change_single)
next
  assume "closes \<noteq> [] \<and>
    (if 2 \<le> length closes then closes ! (length closes - 2) else last closes) = 0"
  then show "price_change closes = Inr (last closes, 0, last closes, 0)"
    using price_change_prev_zero by blast
next
  assume a: "history (Ticker yf symbol) ''2d'' = Inr hist \<and> \<not> df_empty hist \<and>
    dropna (df_close hist) = [p]"
  then have "price_change (dropna (df_close hist)) = Inr (p, p, 0, 0)"
    by (simp add: price_change_single)
  from get_yfinance_data_Result[OF _ _ this] a
  show "\<exists>snap. get_yfinance_data py yf symbol = Result snap \<and>
              snap_change snap = ''+0.00'' \<and> snap_change_percent snap = ''+0.00%''"
    by (simp add: format_zero)
next
  assume a: "history (Ticker yf symbol) ''2d'' = Inr hist \<and> \<not> df_empty hist \<and>
    dropna (df_close hist) = closes \<and> closes \<noteq> [] \<and>
    (if 2 \<le> length closes then closes ! (length closes - 2) else last closes) = 0"
  then have pc: "price_change (dropna (df_close hist)) = Inr (last closes, 0, last closes, 0)"
    using price_change_prev_zero by blast
  from a have h: "history (Ticker yf symbol) ''2d'' = Inr hist"
    and e: "\<not> df_empty hist" and ne: "dropna (df_close hist) \<noteq> []"
    by auto
  from get_yfinance_data_Result[OF h e pc ne]
  show "\<exists>snap. get_yfinance_data py yf symbol = Result snap \<and>
              snap_change_percent snap = ''+0.00%''"
    by (auto simp: format_zero)
next
  assume a: "1 < length tickers_list \<and> by_ticker data (top_ticker asset) = Inr column \<and>
    dropna column = [p]"
  then have "price_change (dropna column) = Inr (p, p, 0, 0)"
    by (simp add: price_change_single)
  from batch_row_Some[OF _ _ this] a
  show "\<exists>row. batch_row data tickers_list asset = Some row \<and>
             row_change row = 0 \<and> row_change_pct row = 0"
    by (simp add: py_round_zero)
next
  assume a: "1 < length tickers_list \<and> by_ticker data (top_ticker asset) = Inr column \<and>
    dropna column = closes \<and> closes \<noteq> [] \<and>
    (if 2 \<le> length closes then closes ! (length closes - 2) else last closes) = 0"
  then have pc: "price_change (dropna column) = Inr (last closes, 0, last closes, 0)"
    using price_change_prev_zero by blast
  from a have l: "1 < length tickers_list"
    and c: "by_ticker data (top_ticker asset) = Inr column"
    and ne: "dropna column \<noteq> []"
    by auto
  from batch_row_Some[OF l c pc ne]
  show "\<exists>row. batch_row data tickers_list asset = Some row \<and> row_change_pct row = 0"
    by (auto simp: py_round_zero)
qed

theorem single_observation_zero_change_witness:
  "price_change [150] = Inr (150, 150, 0, 0) \<and>
   price_change [0, 5] = Inr (5, 0, 5, 0) \<and>
   is_Result (get_yfinance_data ascii_builtins (example_yf [Some 150] 0) ''AAPL'') \<and>
   snap_change (the_result (get_yfinance_data ascii_builtins (example_yf [Some 150] 0) ''AAPL'')) = ''+0.00'' \<and>
   snap_change_percent (the_result (get_yfinance_data ascii_builtins (example_yf [Some 150] 0) ''AAPL''))
     = ''+0.00%'' \<and>
   is_Result (get_yfinance_data ascii_builtins (example_yf [Some 0, Some 5] 0) ''AAPL'') \<and>
   snap_change_percent (the_result (get_yfinance_data ascii_builtins (example_yf [Some 0, Some 5] 0) ''AAPL''))
     = ''+0.00%'' \<and>
   map_option row_change
     (batch_row \<lparr>by_ticker = (\<lambda>symbol. Inr [Some 150]), flat_close = Inr [Some 150]\<rparr>
        (map top_ticker TOP_ASSETS) (hd TOP_ASSETS)) = Some 0 \<and>
   map_option row_change_pct
     (batch_row \<lparr>by_ticker = (\<lambda>symbol. Inr [Some 150]), flat_close = Inr [Some 150]\<rparr>
        (map top_ticker TOP_ASSETS) (hd TOP_ASSETS)) = Some 0 \<and>
   map_option row_change_pct
     (batch_row \<lparr>by_ticker = (\<lambda>symbol. Inr [Some 0, Some 5]), flat_close = Inr [Some 0, Some 5]\<rparr>
        (map top_ticker TOP_ASSETS) (hd TOP_ASSETS)) = Some 0"
proof -
  let ?one = "example_yf [Some 150] 0"
  let ?two = "example_yf [Some 0, Some 5] 0"
  let ?d1 = "\<lparr>by_ticker = (\<lambda>symbol. Inr [Some 150]), flat_close = Inr [Some (150::real)]\<rparr>"
  let ?d2 = "\<lparr>by_ticker = (\<lambda>symbol. Inr [Some 0, Some 5]), flat_close = Inr [Some 0, Some (5::real)]\<rparr>"
  let ?ts = "map top_ticker TOP_ASSETS"
  note T1 = single_observation_zero_change[of 150 "[0, 5]" ?one "''AAPL''"
              "example_hist [Some 150] 0" ascii_builtins ?ts ?d1 "hd TOP_ASSETS" "[Some 150]"]
  note T2 = single_observation_zero_change[of 150 "[0, 5]" ?two "''AAPL''"
              "example_hist [Some 0, Some 5] 0" ascii_builtins ?ts ?d2 "hd TOP_ASSETS" "[Some 0, Some 5]"]
  have a: "price_change [150] = Inr (150, 150, 0, 0)" using T1 by blast
  have p0: "[0, 5::real] \<noteq> [] \<and>
     (if 2 \<le> length [0, 5::real] then [0, 5::real] ! (length [0, 5::real] - 2)
      else last [0, 5::real]) = 0"
    by simp
  with T1 have "price_change [0, 5] = Inr (last [0, 5], 0, last [0, 5], 0)" by blast
  then have b: "price_change [0, 5] = Inr (5, 0, 5, 0)" by simp
  have h1: "history (Ticker ?one ''AAPL'') ''2d'' = Inr (example_hist [Some 150] 0) \<and>
            \<not> df_empty (example_hist [Some 150] 0) \<and>
            dropna (df_close (example_hist [Some 150] 0)) = [150]"
    by (simp add: example_yf_def example_hist_def)
  with T1 obtain s1 where s1: "get_yfinance_data ascii_builtins ?one ''AAPL'' = Result s1"
    "snap_change s1 = ''+0.00''" "snap_change_percent s1 = ''+0.00%''"
    by blast
  have h2: "history (Ticker ?two ''AAPL'') ''2d'' = Inr (example_hist [Some 0, Some 5] 0) \<and>
            \<not> df_empty (example_hist [Some 0, Some 5] 0) \<and>
            dropna (df_close (example_hist [Some 0, Some 5] 0)) = [0, 5] \<and> [0, 5::real] \<noteq> [] \<and>
            (if 2 \<le> length [0, 5::real] then [0, 5::real] ! (length [0, 5::real] - 2)
             else last [0, 5::real]) = 0"
    by (simp add: example_yf_def example_hist_def)
  with T2 obtain s2 where s2: "get_yfinance_data ascii_builtins ?two ''AAPL'' = Result s2"
    "snap_change_percent s2 = ''+0.00%''"
    by blast
  have l: "1 < length ?ts" by (simp add: TOP_ASSETS_def)
  have b1: "1 < length ?ts \<and> by_ticker ?d1 (top_ticker (hd TOP_ASSETS)) = Inr [Some 150] \<and>
            dropna [Some 150] = [150]"
    using l by simp
  with T1 obtain r1 where r1: "batch_row ?d1 ?ts (hd TOP_ASSETS) = Some r1"
    "row_change r1 = 0" "row_change_pct r1 = 0"
    by blast
  have b2: "1 < length ?ts \<and> by_ticker ?d2 (top_ticker (hd TOP_ASSETS)) = Inr [Some 0, Some 5] \<and>
            dropna [Some 0, Some 5] = [0, 5] \<and> [0, 5::real] \<noteq> [] \<and>
            (if 2 \<le> length [0, 5::real] then [0, 5::real] ! (length [0, 5::real] - 2)
             else last [0, 5::real]) = 0"
    using l by simp
  with T2 obtain r2 where r2: "batch_row ?d2 ?ts (hd TOP_ASSETS) = Some r2"
    "row_change_pct r2 = 0"
    by blast
  from a b s1 s2 r1 r2 show ?thesis by simp
qed


section \<open>The risk test: proofs\<close>

lemma length_RISK_QUESTIONS: "length RISK_QUESTIONS = 5"
  by (simp add: RISK_QUESTIONS_def)

text \<open>
  Claim C8. \<^verbatim>\<open>get_risk_question\<close> returns the empty text for every index outside 0..4,
  and for an index \<open>i\<close> in 0..4 the text of question \<open>i\<close> followed by its position among
  the 5 questions, which is not empty. The endpoint answers 400 for every number outside
  1..5, and for a number in 1..5 it answers with that number, \<^verbatim>\<open>total_questions = 5\<close> and
  the question of index \<open>number - 1\<close>.
\<close>

theorem risk_question_range:
  "(i < 0 \<or> 4 < i \<longrightarrow> get_risk_question i = []) \<and>
   (0 \<le> i \<and> i \<le> 4 \<longrightarrow>
      get_risk_question i =
        RISK_QUESTIONS ! nat i @ [CHR 0x0A, CHR 0x0A] @ ''*Pregunta '' @ str_int (i + 1)
          @ '' de '' @ str_int 5 @ ''*'' \<and>
      get_risk_question i \<noteq> []) \<and>
   (number < 1 \<or> 5 < number \<longrightarrow>
      get_question number = HTTPException 400 ''Question number must be between 1 and 5'' []) \<and>
   (1 \<le> number \<and> number \<le> 5 \<longrightarrow>
      get_question number =
        Response \<lparr>question_number = number, total_questions = 5,
                  question = get_risk_question (number - 1)\<rparr> \<and>
      get_risk_question (number - 1) \<noteq> [] \<and>
      prefix (RISK_QUESTIONS ! nat (number - 1)) (get_risk_question (number - 1)))"
proof (intro conjI impI)
  assume "i < 0 \<or> 4 < i"
  then show "get_risk_question i = []"
    by (auto simp: get_risk_question_def length_RISK_QUESTIONS)
next
  assume "0 \<le> i \<and> i \<le> 4"
  then show "get_risk_question i =
        RISK_QUESTIONS ! nat i @ [CHR 0x0A, CHR 0x0A] @ ''*Pregunta '' @ str_int (i + 1)
          @ '' de '' @ str_int 5 @ ''*''"
    by (simp add: get_risk_question_def length_RISK_QUESTIONS)
next
  assume "0 \<le> i \<and> i \<le> 4"
  then show "get_risk_question i \<noteq> []"
    by (simp add: get_risk_question_def length_RISK_QUESTIONS)
next
  assume "number < 1 \<or> 5 < number"
  then show "get_question number =
      HTTPException 400 ''Question number must be between 1 and 5'' []"
    by (auto simp: get_question_def)
next
  assume "1 \<le> number \<and> number \<le> 5"
  then show "get_question number =
        Response \<lparr>question_number = number, total_questions = 5,
                  question = get_risk_question (number - 1)\<rparr>"
    by (simp add: get_question_def)
next
  assume "1 \<le> number \<and> number \<le> 5"
  then show "get_risk_question (number - 1) \<noteq> []"
    by (simp add: get_risk_question_def length_RISK_QUESTIONS)
next
  assume "1 \<le> number \<and> number \<le> 5"
  then show "prefix (RISK_QUESTIONS ! nat (number - 1)) (get_risk_question (number - 1))"
    by (simp add: get_risk_question_def length_RISK_QUESTIONS)
qed

theorem risk_question_range_witness:
  "get_risk_question 5 = [] \<and> get_risk_question (- 1) = [] \<and>
   get_risk_question 0 \<noteq> [] \<and> get_risk_question 4 \<noteq> [] \<and>
   get_question 6 = HTTPException 400 ''Question number must be between 1 and 5'' [] \<and>
   get_question 0 = HTTPException 400 ''Question number must be between 1 and 5'' [] \<and>
   get_question 1 =
     Response \<lparr>question_number = 1, total_questions = 5, question = get_risk_question (1 - 1)\<rparr> \<and>
   get_question 5 =
     Response \<lparr>question_number = 5, total_questions = 5, question = get_risk_question (5 - 1)\<rparr>"
proof -
  have a: "get_risk_question 5 = []"
    using risk_question_range[of 5 6] by simp
  have b: "get_risk_question (- 1) = []"
    using risk_question_range[of "- 1" 0] by simp
  have c: "get_risk_question 0 \<noteq> []"
    using risk_question_range[of 0 1] by simp
  have d: "get_risk_question 4 \<noteq> []"
    using risk_question_range[of 4 5] by simp
  have e: "get_question 6 = HTTPException 400 ''Question number must be between 1 and 5'' []"
    using risk_question_range[of 5 6] by simp
  have f: "get_question 0 = HTTPException 400 ''Question number must be between 1 and 5'' []"
    using risk_question_range[of "- 1" 0] by simp
  have g: "get_question 1 =
     Response \<lparr>question_number = 1, total_questions = 5, question = get_risk_question (1 - 1)\<rparr>"
    using risk_question_range[of 0 1] by simp
  have h: "get_question 5 =
     Response \<lparr>question_number = 5, total_questions = 5, question = get_risk_question (5 - 1)\<rparr>"
    using risk_question_range[of 4 5] by simp
  from a b c d e f g h show ?thesis by blast
qed


section \<open>The risk classifier: proofs\<close>





section \<open>Authentication: proofs\<close>

lemma login_unregistered:
  "find (\<lambda>u. user_email u = Some (username form)) db = None \<Longrightarrow>
   login checkpw jwt utcnow db form =
     HTTPException 401 (''Email o contrase'' @ [CHR 0xC3, CHR 0xB1] @ ''a incorrectos'') []"
  by (simp add: login_def Let_def)

lemma login_check_raises:
  "find (\<lambda>u. user_email u = Some (username form)) db = Some user \<Longrightarrow>
   user_password_hash user = Some hashed \<Longrightarrow> hashed \<noteq> [] \<Longrightarrow>
   checkpw (password form) hashed = Inl e \<Longrightarrow>
   login checkpw jwt utcnow db form = Unhandled e"
  by (simp add: login_def verify_password_def Let_def)

lemma get_current_user_undecodable:
  "decode jwt token = Inl e \<Longrightarrow> get_current_user py jwt db token = credentials_exception"
  by (simp add: get_current_user_def)

lemma get_current_user_int_raises:
  "decode jwt token = Inr payload \<Longrightarrow> sub payload = Some uid \<Longrightarrow> int_of_str py uid = Inl e \<Longrightarrow>
   get_current_user py jwt db token = Unhandled e"
  by (simp add: get_current_user_def)

lemma get_current_user_query_raises:
  "decode jwt token = Inr payload \<Longrightarrow> sub payload = Some uid \<Longrightarrow> int_of_str py uid = Inr i \<Longrightarrow>
   i < - (2 ^ 63) \<or> 2 ^ 63 \<le> i \<Longrightarrow>
   get_current_user py jwt db token =
     Unhandled ''Python int too large to convert to SQLite INTEGER''"
  by (simp add: get_current_user_def query_user_by_id_def)

text \<open>
  Claim C9. The failing attempts are not answered uniformly. A login with a password of
  73 bytes is answered by the 401 response with the generic detail when the email is
  not registered or the user has no stored password hash, but when the email is that of
  a user with a stored hash the password check raises and the exception leaves
  \<^verbatim>\<open>login\<close>, which the server answers with the status 500: the two responses tell whether
  the email is registered. A wrong password of at most 72 bytes is answered by the 401
  response. Likewise a token that cannot be decoded, has no subject or has the subject of
  no user is answered by the one 401 response, but a token that is decoded and whose
  subject names no user because it is not a number, or is a number outside 64 bits,
  makes \<^verbatim>\<open>int\<close> or the query raise outside the \<^verbatim>\<open>try\<close> statement, which is the status 500
  again.
\<close>

theorem authentication_failures_distinguishable:
  "login example_checkpw example_jwt 0 example_db
       \<lparr>username = ''nobody@example.com'', password = replicate 73 (CHR ''x'')\<rparr>
     = HTTPException 401 (''Email o contrase'' @ [CHR 0xC3, CHR 0xB1] @ ''a incorrectos'') [] \<and>
   login example_checkpw example_jwt 0 example_db
       \<lparr>username = ''luis@example.com'', password = replicate 73 (CHR ''x'')\<rparr>
     = HTTPException 401 (''Email o contrase'' @ [CHR 0xC3, CHR 0xB1] @ ''a incorrectos'') [] \<and>
   login example_checkpw example_jwt 0 example_db
       \<lparr>username = ''ana@example.com'', password = ''wrong''\<rparr>
     = HTTPException 401 (''Email o contrase'' @ [CHR 0xC3, CHR 0xB1] @ ''a incorrectos'') [] \<and>
   login example_checkpw example_jwt 0 example_db
       \<lparr>username = ''ana@example.com'', password = replicate 73 (CHR ''x'')\<rparr>
     = Unhandled
         (''password cannot be longer than 72 bytes, truncate manually if ''
          @ ''necessary (e.g. my_password[:72])'') \<and>
   get_current_user ascii_builtins example_jwt example_db ''forged'' = credentials_exception \<and>
   get_current_user ascii_builtins example_jwt example_db ''nosub'' = credentials_exception \<and>
   get_current_user ascii_builtins example_jwt example_db ''ghost'' = credentials_exception \<and>
   get_current_user ascii_builtins example_jwt example_db ''letters''
     = Unhandled (''invalid literal for int() with base 10: '' @ [CHR 0x27] @ ''abc'' @ [CHR 0x27]) \<and>
   get_current_user ascii_builtins example_jwt example_db ''huge''
     = Unhandled ''Python int too large to convert to SQLite INTEGER''"
  by code_simp

section \<open>The chat endpoint: proofs\<close>

lemma chat_market_data_cases:
  "market_data (chat_endpoint py yf client request) =
     (if extract_ticker_from_message py (chat_message request) = ''UNKNOWN'' then None
      else case get_market_data py yf (extract_ticker_from_message py (chat_message request)) of
             Error e \<Rightarrow> None
           | Result snap \<Rightarrow> Some (Result snap))"
  by (simp add: chat_endpoint_def Let_def split: outcome.splits)

text \<open>
  Claim C10. In every response of the chat endpoint the field \<^verbatim>\<open>market_data\<close> is null or a
  snapshot, never an error dictionary: it is null when the resolved ticker is
  \<^verbatim>\<open>"UNKNOWN"\<close> and when the market lookup answers with an error, and it is the snapshot
  otherwise. The reply is the advisor's answer for this same value, so that the value is
  coerced before the prompt is built, and a null value puts the note that there are no
  market data into the prompt. The field \<^verbatim>\<open>detected_ticker\<close> is the output of the resolver
  for the message of the request.
\<close>

theorem chat_market_data_never_error:
  "(\<forall>e. market_data (chat_endpoint py yf client request) \<noteq> Some (Error e)) \<and>
   (extract_ticker_from_message py (chat_message request) = ''UNKNOWN'' \<longrightarrow>
      market_data (chat_endpoint py yf client request) = None) \<and>
   (\<forall>e. get_market_data py yf (extract_ticker_from_message py (chat_message request)) = Error e \<longrightarrow>
      market_data (chat_endpoint py yf client request) = None) \<and>
   (\<forall>snap. extract_ticker_from_message py (chat_message request) \<noteq> ''UNKNOWN'' \<and>
      get_market_data py yf (extract_ticker_from_message py (chat_message request)) = Result snap \<longrightarrow>
      market_data (chat_endpoint py yf client request) = Some (Result snap)) \<and>
   reply (chat_endpoint py yf client request) =
     get_unified_analysis client (chat_message request) (chat_profile request)
       (market_data (chat_endpoint py yf client request)) \<and>
   (market_data (chat_endpoint py yf client request) = None \<longrightarrow>
      market_context (market_data (chat_endpoint py yf client request)) =
        ''No hay datos de mercado espec'' @ [CHR 0xC3, CHR 0xAD] @ ''ficos para este mensaje.'') \<and>
   detected_ticker (chat_endpoint py yf client request) =
     extract_ticker_from_message py (chat_message request)"
proof (intro conjI allI impI)
  fix e
  show "market_data (chat_endpoint py yf client request) \<noteq> Some (Error e)"
    by (simp add: chat_market_data_cases split: outcome.splits)
next
  assume "extract_ticker_from_message py (chat_message request) = ''UNKNOWN''"
  then show "market_data (chat_endpoint py yf client request) = None"
    by (simp add: chat_market_data_cases)
next
  fix e
  assume "get_market_data py yf (extract_ticker_from_message py (chat_message request)) = Error e"
  then show "market_data (chat_endpoint py yf client request) = None"
    by (simp add: chat_market_data_cases)
next
  fix snap
  assume "extract_ticker_from_message py (chat_message request) \<noteq> ''UNKNOWN'' \<and>
      get_market_data py yf (extract_ticker_from_message py (chat_message request)) = Result snap"
  then show "market_data (chat_endpoint py yf client request) = Some (Result snap)"
    by (simp add: chat_market_data_cases)
next
  show "reply (chat_endpoint py yf client request) =
     get_unified_analysis client (chat_message request) (chat_profile request)
       (market_data (chat_endpoint py yf client request))"
    by (simp add: chat_endpoint_def Let_def)
next
  assume "market_data (chat_endpoint py yf client request) = None"
  then show "market_context (market_data (chat_endpoint py yf client request)) =
        ''No hay datos de mercado espec'' @ [CHR 0xC3, CHR 0xAD] @ ''ficos para este mensaje.''"
    by (simp add: market_context_def)
next
  show "detected_ticker (chat_endpoint py yf client request) =
     extract_ticker_from_message py (chat_message request)"
    by (simp add: chat_endpoint_def Let_def)
qed

theorem chat_market_data_never_error_witness:
  "extract_ticker_from_message ascii_builtins ''que hoy'' = ''UNKNOWN'' \<and>
   market_data (chat_endpoint ascii_builtins offline_yf (reply_client ''Hola'')
     \<lparr>chat_message = ''que hoy'', chat_profile = ''Moderado''\<rparr>) = None \<and>
   extract_ticker_from_message ascii_builtins ''precio de tesla'' = ''TSLA'' \<and>
   is_Error (get_market_data ascii_builtins offline_yf ''TSLA'') \<and>
   market_data (chat_endpoint ascii_builtins offline_yf (reply_client ''Hola'')
     \<lparr>chat_message = ''precio de tesla'', chat_profile = ''Moderado''\<rparr>) = None \<and>
   detected_ticker (chat_endpoint ascii_builtins offline_yf (reply_client ''Hola'')
     \<lparr>chat_message = ''precio de tesla'', chat_profile = ''Moderado''\<rparr>) = ''TSLA'' \<and>
   is_Result (get_market_data ascii_builtins (example_yf [Some 150] 0) ''TSLA'') \<and>
   market_data (chat_endpoint ascii_builtins (example_yf [Some 150] 0) (reply_client ''Hola'')
     \<lparr>chat_message = ''precio de tesla'', chat_profile = ''Moderado''\<rparr>) =
     Some (get_market_data ascii_builtins (example_yf [Some 150] 0) ''TSLA'')"
proof -
  let ?c = "reply_client ''Hola''"
  let ?q1 = "\<lparr>chat_message = ''que hoy'', chat_profile = ''Moderado''\<rparr>"
  let ?q2 = "\<lparr>chat_message = ''precio de tesla'', chat_profile = ''Moderado''\<rparr>"
  let ?yf = "example_yf [Some 150] 0"
  have x1: "extract_ticker_from_message ascii_builtins ''que hoy'' = ''UNKNOWN''" by code_simp
  then have x1': "extract_ticker_from_message ascii_builtins (chat_message ?q1) = ''UNKNOWN''" by simp
  have r1: "market_data (chat_endpoint ascii_builtins offline_yf ?c ?q1) = None"
    using chat_market_data_never_error[of ascii_builtins offline_yf ?c ?q1] x1' by blast
  have x2: "extract_ticker_from_message ascii_builtins ''precio de tesla'' = ''TSLA''" by code_simp
  then have x2': "extract_ticker_from_message ascii_builtins (chat_message ?q2) = ''TSLA''" by simp
  have m2: "is_Error (get_market_data ascii_builtins offline_yf ''TSLA'')" by code_simp
  then obtain e where "get_market_data ascii_builtins offline_yf ''TSLA'' = Error e"
    by (cases "get_market_data ascii_builtins offline_yf ''TSLA''") auto
  with x2' have "get_market_data ascii_builtins offline_yf (extract_ticker_from_message ascii_builtins (chat_message ?q2)) = Error e"
    by simp
  then have r2: "market_data (chat_endpoint ascii_builtins offline_yf ?c ?q2) = None"
    using chat_market_data_never_error[of ascii_builtins offline_yf ?c ?q2] by blast
  have "detected_ticker (chat_endpoint ascii_builtins offline_yf ?c ?q2) =
          extract_ticker_from_message ascii_builtins (chat_message ?q2)"
    using chat_market_data_never_error[of ascii_builtins offline_yf ?c ?q2] by blast
  with x2' have r3: "detected_ticker (chat_endpoint ascii_builtins offline_yf ?c ?q2) = ''TSLA''" by simp
  have m3: "is_Result (get_market_data ascii_builtins ?yf ''TSLA'')" by code_simp
  then obtain snap where s: "get_market_data ascii_builtins ?yf ''TSLA'' = Result snap"
    by (cases "get_market_data ascii_builtins ?yf ''TSLA''") auto
  with x2' have "extract_ticker_from_message ascii_builtins (chat_message ?q2) \<noteq> ''UNKNOWN'' \<and>
      get_market_data ascii_builtins ?yf (extract_ticker_from_message ascii_builtins (chat_message ?q2)) = Result snap"
    by simp
  then have "market_data (chat_endpoint ascii_builtins ?yf ?c ?q2) = Some (Result snap)"
    using chat_market_data_never_error[of ascii_builtins ?yf ?c ?q2] by blast
  with s have r4: "market_data (chat_endpoint ascii_builtins ?yf ?c ?q2) = Some (get_market_data ascii_builtins ?yf ''TSLA'')"
    by simp
  from x1 r1 x2 m2 r2 r3 m3 r4 show ?thesis by blast
qed


end
